theory Spec2Isabelle
  imports Complex_Main
begin

section \<open>JavaScript values\<close>

text \<open>
  The handler in \<^verbatim>\<open>src/pages/api/index.ts\<close> works on values that come out of
  \<^verbatim>\<open>JSON.parse\<close> and \<^verbatim>\<open>Response.json()\<close>. A parsed value is a \<open>json\<close>; a
  JavaScript value that may also be \<^verbatim>\<open>undefined\<close> is a \<open>json option\<close>, with \<open>None\<close> for
  \<^verbatim>\<open>undefined\<close>. Strings are byte strings holding well-formed UTF-8 text. Numbers are
  exact rationals extended by the three special values of a double: the rounding of
  IEEE arithmetic and the sign of zero are not modelled.
\<close>

datatype json =
    JNull
  | JBool bool
  | JNum rat
  | JStr string
  | JArr "json list"
  | JObj "(string \<times> json) list"

type_synonym jsval = "json option"

datatype jsnum = Fin rat | PInf | NInf | NaN

datatype exn = TypeError | SyntaxError | Error string

subsection \<open>Arithmetic and comparison of numbers\<close>

fun js_neg :: "jsnum \<Rightarrow> jsnum" where
  "js_neg (Fin a) = Fin (- a)"
| "js_neg PInf = NInf"
| "js_neg NInf = PInf"
| "js_neg NaN = NaN"

fun js_add :: "jsnum \<Rightarrow> jsnum \<Rightarrow> jsnum" where
  "js_add NaN _ = NaN"
| "js_add _ NaN = NaN"
| "js_add (Fin a) (Fin b) = Fin (a + b)"
| "js_add PInf NInf = NaN"
| "js_add NInf PInf = NaN"
| "js_add PInf _ = PInf"
| "js_add NInf _ = NInf"
| "js_add (Fin a) PInf = PInf"
| "js_add (Fin a) NInf = NInf"

definition js_sub :: "jsnum \<Rightarrow> jsnum \<Rightarrow> jsnum" where
  "js_sub x y = js_add x (js_neg y)"

text \<open>The sign of a number: \<open>Some 1\<close>, \<open>Some 0\<close>, \<open>Some (-1)\<close>, and \<open>None\<close> for NaN.\<close>

fun js_sign :: "jsnum \<Rightarrow> int option" where
  "js_sign (Fin a) = Some (if a < 0 then - 1 else if a = 0 then 0 else 1)"
| "js_sign PInf = Some 1"
| "js_sign NInf = Some (- 1)"
| "js_sign NaN = None"

definition signed_inf :: "int \<Rightarrow> jsnum" where
  "signed_inf s = (if s < 0 then NInf else PInf)"

text \<open>
  Division never raises in JavaScript: a finite nonzero number divided by zero is an
  infinity, and \<^verbatim>\<open>0 / 0\<close> is NaN.
\<close>

fun js_div :: "jsnum \<Rightarrow> jsnum \<Rightarrow> jsnum" where
  "js_div NaN _ = NaN"
| "js_div _ NaN = NaN"
| "js_div (Fin a) (Fin b) =
     (if b = 0 then (if a = 0 then NaN else signed_inf (if a < 0 then - 1 else 1))
      else Fin (a / b))"
| "js_div (Fin a) PInf = Fin 0"
| "js_div (Fin a) NInf = Fin 0"
| "js_div PInf (Fin b) = signed_inf (if b < 0 then - 1 else 1)"
| "js_div NInf (Fin b) = signed_inf (if b < 0 then 1 else - 1)"
| "js_div PInf PInf = NaN"
| "js_div PInf NInf = NaN"
| "js_div NInf PInf = NaN"
| "js_div NInf NInf = NaN"

fun js_mul :: "jsnum \<Rightarrow> jsnum \<Rightarrow> jsnum" where
  "js_mul (Fin a) (Fin b) = Fin (a * b)"
| "js_mul x y =
     (case (js_sign x, js_sign y) of
        (Some s, Some t) \<Rightarrow> if s * t = 0 then NaN else signed_inf (s * t)
      | _ \<Rightarrow> NaN)"

text \<open>\<^verbatim>\<open>x < y\<close> on numbers: false as soon as one side is NaN.\<close>

fun js_lt :: "jsnum \<Rightarrow> jsnum \<Rightarrow> bool" where
  "js_lt NaN _ = False"
| "js_lt _ NaN = False"
| "js_lt (Fin a) (Fin b) = (a < b)"
| "js_lt NInf NInf = False"
| "js_lt NInf _ = True"
| "js_lt _ NInf = False"
| "js_lt PInf _ = False"
| "js_lt (Fin a) PInf = True"

definition js_gt :: "jsnum \<Rightarrow> jsnum \<Rightarrow> bool" where
  "js_gt x y = js_lt y x"

subsection \<open>The host's coercions\<close>

text \<open>
  What the JavaScript host computes and this repository does not define is a parameter
  of the model: the conversion to a number of a string, an array or an object, the
  conversion to a string of a number, an array or an object (\<open>None\<close> when the conversion
  throws a TypeError), \<^verbatim>\<open>Number.prototype.toFixed\<close>, the message of an exception the
  engine raises, and the events that \<^verbatim>\<open>eventsource-parser\<close> finds in the decoded chunks
  of a response body. The cases the language fixes in one line are written out below.
\<close>

datatype sse = Event string | ReconnectInterval nat

record host =
  ToNumber_other :: "json \<Rightarrow> jsnum option"
  ToString_other :: "json \<Rightarrow> string option"
  toFixed :: "jsnum \<Rightarrow> nat \<Rightarrow> string"
  engine_message :: "exn \<Rightarrow> string"
  createParser :: "string \<Rightarrow> sse list"

definition and_then :: "exn + 'a \<Rightarrow> ('a \<Rightarrow> exn + 'b) \<Rightarrow> exn + 'b" where
  "and_then x f = (case x of Inl e \<Rightarrow> Inl e | Inr v \<Rightarrow> f v)"

fun ToNumber :: "host \<Rightarrow> jsval \<Rightarrow> exn + jsnum" where
  "ToNumber h None = Inr NaN"
| "ToNumber h (Some JNull) = Inr (Fin 0)"
| "ToNumber h (Some (JBool b)) = Inr (Fin (if b then 1 else 0))"
| "ToNumber h (Some (JNum r)) = Inr (Fin r)"
| "ToNumber h (Some v) = (case ToNumber_other h v of None \<Rightarrow> Inl TypeError | Some x \<Rightarrow> Inr x)"

fun ToString :: "host \<Rightarrow> json \<Rightarrow> exn + string" where
  "ToString h JNull = Inr ''null''"
| "ToString h (JBool b) = Inr (if b then ''true'' else ''false'')"
| "ToString h (JStr s) = Inr s"
| "ToString h v = (case ToString_other h v of None \<Rightarrow> Inl TypeError | Some s \<Rightarrow> Inr s)"

text \<open>The message of a caught exception, \<^verbatim>\<open>err.message\<close>.\<close>

fun message_of :: "host \<Rightarrow> exn \<Rightarrow> string" where
  "message_of h (Error m) = m"
| "message_of h e = engine_message h e"

text \<open>Truthiness, as \<^verbatim>\<open>if (v)\<close> and \<^verbatim>\<open>!v\<close> test it.\<close>

fun truthy :: "jsval \<Rightarrow> bool" where
  "truthy None = False"
| "truthy (Some JNull) = False"
| "truthy (Some (JBool b)) = b"
| "truthy (Some (JNum r)) = (r \<noteq> 0)"
| "truthy (Some (JStr s)) = (s \<noteq> [])"
| "truthy (Some _) = True"

subsection \<open>Property access\<close>

text \<open>
  \<open>Get v k\<close> is \<^verbatim>\<open>v.k\<close> on a value that is neither \<^verbatim>\<open>null\<close> nor \<^verbatim>\<open>undefined\<close>, for the
  names the handler reads (\<^verbatim>\<open>choices\<close>, \<^verbatim>\<open>delta\<close>, \<^verbatim>\<open>content\<close>, \<^verbatim>\<open>error\<close>, \<^verbatim>\<open>message\<close>,
  \<^verbatim>\<open>hard_limit_usd\<close>, \<^verbatim>\<open>total_usage\<close>): none of them is inherited from a prototype, so
  only an object has them, as an own property; of a duplicated key the last one
  counts. \<open>Get0 v\<close> is \<^verbatim>\<open>v[0]\<close>; on a string that is not empty it is a string again,
  of which only the first byte is kept here.
\<close>

fun Get :: "json \<Rightarrow> string \<Rightarrow> jsval" where
  "Get (JObj ms) k = map_of (rev ms) k"
| "Get _ k = None"

fun Get0 :: "json \<Rightarrow> jsval" where
  "Get0 (JArr xs) = (case xs of [] \<Rightarrow> None | x # _ \<Rightarrow> Some x)"
| "Get0 (JStr s) = (case s of [] \<Rightarrow> None | c # _ \<Rightarrow> Some (JStr [c]))"
| "Get0 (JObj ms) = map_of (rev ms) ''0''"
| "Get0 _ = None"

text \<open>
  \<open>member v f\<close> is the access \<^verbatim>\<open>v.p\<close>, which throws a TypeError on \<^verbatim>\<open>undefined\<close> and
  \<^verbatim>\<open>null\<close>; \<open>opt_member v f\<close> is \<^verbatim>\<open>v?.p\<close>, which gives \<^verbatim>\<open>undefined\<close> there.
\<close>

definition member :: "jsval \<Rightarrow> (json \<Rightarrow> jsval) \<Rightarrow> exn + jsval" where
  "member v f = (case v of None \<Rightarrow> Inl TypeError | Some JNull \<Rightarrow> Inl TypeError | Some j \<Rightarrow> Inr (f j))"

definition opt_member :: "jsval \<Rightarrow> (json \<Rightarrow> jsval) \<Rightarrow> jsval" where
  "opt_member v f = (case v of None \<Rightarrow> None | Some JNull \<Rightarrow> None | Some j \<Rightarrow> f j)"

section \<open>JSON.parse\<close>

text \<open>
  The grammar of JSON texts: a lexer from characters to tokens, and a stack machine
  over the tokens. \<open>None\<close> is the SyntaxError of \<^verbatim>\<open>JSON.parse\<close>.
\<close>

datatype token =
    TLBrace | TRBrace | TLBrack | TRBrack | TColon | TComma
  | TStr string | TNum rat | TTrue | TFalse | TNull

definition is_ws :: "char \<Rightarrow> bool" where
  "is_ws c \<longleftrightarrow> c = CHR '' '' \<or> c = CHR 0x09 \<or> c = CHR 0x0A \<or> c = CHR 0x0D"

definition is_digit :: "char \<Rightarrow> bool" where
  "is_digit c \<longleftrightarrow> c \<in> set ''0123456789''"

definition digit_val :: "char \<Rightarrow> nat" where
  "digit_val c = of_char c - 48"

definition digits_val :: "string \<Rightarrow> nat" where
  "digits_val ds = foldl (\<lambda>a d. 10 * a + digit_val d) 0 ds"

definition hex_val :: "char \<Rightarrow> nat option" where
  "hex_val c =
     (if is_digit c then Some (digit_val c)
      else if c \<in> set ''abcdef'' then Some (of_char c - 87)
      else if c \<in> set ''ABCDEF'' then Some (of_char c - 55)
      else None)"

definition hex4 :: "string \<Rightarrow> nat option" where
  "hex4 s =
     (case s of
        a # b # c # d # _ \<Rightarrow>
          (case (hex_val a, hex_val b, hex_val c, hex_val d) of
             (Some x, Some y, Some z, Some w) \<Rightarrow> Some (((x * 16 + y) * 16 + z) * 16 + w)
           | _ \<Rightarrow> None)
      | _ \<Rightarrow> None)"

text \<open>The UTF-8 bytes of a code point.\<close>

definition utf8 :: "nat \<Rightarrow> string" where
  "utf8 n =
     (if n < 0x80 then [char_of n]
      else if n < 0x800 then [char_of (0xC0 + n div 0x40), char_of (0x80 + n mod 0x40)]
      else if n < 0x10000 then
        [char_of (0xE0 + n div 0x1000), char_of (0x80 + n div 0x40 mod 0x40),
         char_of (0x80 + n mod 0x40)]
      else
        [char_of (0xF0 + n div 0x40000), char_of (0x80 + n div 0x1000 mod 0x40),
         char_of (0x80 + n div 0x40 mod 0x40), char_of (0x80 + n mod 0x40)])"

text \<open>
  The text after \<^verbatim>\<open>\u\<close>: four hexadecimal digits. A high surrogate followed by an escaped
  low surrogate is one code point; a surrogate on its own is written out as U+FFFD,
  which is what the text encoder makes of it.
\<close>

definition unicode_escape :: "string \<Rightarrow> (nat \<times> string) option" where
  "unicode_escape r =
     (case hex4 r of
        None \<Rightarrow> None
      | Some hi \<Rightarrow>
          (let r1 = drop 4 r in
           if 0xD800 \<le> hi \<and> hi < 0xDC00 then
             (case r1 of
                b # u # r2 \<Rightarrow>
                  (if b = CHR 0x5C \<and> u = CHR ''u'' then
                     (case hex4 r2 of
                        None \<Rightarrow> Some (0xFFFD, r1)
                      | Some lo \<Rightarrow>
                          if 0xDC00 \<le> lo \<and> lo < 0xE000
                          then Some (0x10000 + (hi - 0xD800) * 0x400 + (lo - 0xDC00), drop 4 r2)
                          else Some (0xFFFD, r1))
                   else Some (0xFFFD, r1))
              | _ \<Rightarrow> Some (0xFFFD, r1))
           else if 0xDC00 \<le> hi \<and> hi < 0xE000 then Some (0xFFFD, r1)
           else Some (hi, r1)))"

definition starts_with :: "string \<Rightarrow> string \<Rightarrow> bool" where
  "starts_with p s \<longleftrightarrow> take (length p) s = p"

definition simple_escape :: "char \<Rightarrow> char option" where
  "simple_escape e =
     (if e = CHR 0x22 then Some (CHR 0x22)
      else if e = CHR 0x5C then Some (CHR 0x5C)
      else if e = CHR ''/'' then Some (CHR ''/'')
      else if e = CHR ''b'' then Some (CHR 0x08)
      else if e = CHR ''f'' then Some (CHR 0x0C)
      else if e = CHR ''n'' then Some (CHR 0x0A)
      else if e = CHR ''r'' then Some (CHR 0x0D)
      else if e = CHR ''t'' then Some (CHR 0x09)
      else None)"

text \<open>One escape sequence, after its backslash: the bytes it stands for and the rest.\<close>

definition lex_escape :: "string \<Rightarrow> (string \<times> string) option" where
  "lex_escape cs =
     (case cs of
        [] \<Rightarrow> None
      | e # r \<Rightarrow>
          if e = CHR ''u'' then map_option (\<lambda>(n, rest). (utf8 n, rest)) (unicode_escape r)
          else map_option (\<lambda>ch. ([ch], r)) (simple_escape e))"

lemma drop_Cons2_length: "drop k r = b # u # r2 \<Longrightarrow> length r2 + 2 + k \<le> length r"
proof -
  assume a: "drop k r = b # u # r2"
  have "length (drop k r) = Suc (Suc (length r2))" by (simp add: a)
  then show ?thesis by simp
qed

lemma unicode_escape_length:
  assumes "unicode_escape r = Some (n, rest)"
  shows "length rest \<le> length r"
proof -
  have "rest = drop 4 r \<or> (\<exists>b u r2. drop 4 r = b # u # r2 \<and> rest = drop 4 r2)"
    using assms
    by (auto simp: unicode_escape_def Let_def split: option.splits list.splits if_splits)
  then show ?thesis
  proof
    assume "rest = drop 4 r"
    then show ?thesis by simp
  next
    assume "\<exists>b u r2. drop 4 r = b # u # r2 \<and> rest = drop 4 r2"
    then obtain b u r2 where d: "drop 4 r = b # u # r2" and r: "rest = drop 4 r2" by blast
    from drop_Cons2_length [OF d] r show ?thesis by simp
  qed
qed

lemma lex_escape_length:
  "lex_escape cs = Some (s, rest) \<Longrightarrow> length rest < length cs"
  by (auto simp: lex_escape_def split: list.splits if_splits dest: unicode_escape_length)

text \<open>The characters of a string literal after its opening quote, up to the closing one.\<close>

function lex_string :: "string \<Rightarrow> (string \<times> string) option" where
  "lex_string [] = None"
| "lex_string (c # cs) =
     (if c = CHR 0x22 then Some ([], cs)
      else if c = CHR 0x5C then
        (case lex_escape cs of
           None \<Rightarrow> None
         | Some (s, rest) \<Rightarrow> map_option (\<lambda>(t, rest'). (s @ t, rest')) (lex_string rest))
      else if (of_char c :: nat) < 0x20 then None
      else map_option (\<lambda>(t, rest'). (c # t, rest')) (lex_string cs))"
  by pat_completeness auto
termination
  by (relation "measure length") (auto dest: lex_escape_length)

lemma lex_string_length:
  "lex_string cs = Some (s, rest) \<Longrightarrow> length rest < Suc (length cs)"
proof (induction cs arbitrary: s rest rule: lex_string.induct)
  case 1
  then show ?case by simp
next
  case (2 c cs)
  show ?case
  proof (cases "c = CHR 0x22")
    case True
    with "2.prems" show ?thesis by simp
  next
    case quote: False
    show ?thesis
    proof (cases "c = CHR 0x5C")
      case True
      with quote "2.prems" obtain e r t where
        esc: "lex_escape cs = Some (e, r)" and rec: "lex_string r = Some (t, rest)"
        by (auto split: option.splits)
      from "2.IH"(1) [OF quote True esc refl rec] lex_escape_length [OF esc]
      show ?thesis by simp
    next
      case False
      with quote "2.prems" obtain t where
        ctl: "\<not> (of_char c :: nat) < 0x20" and rec: "lex_string cs = Some (t, rest)"
        by (auto split: if_splits)
      from "2.IH"(2) [OF quote False ctl rec] show ?thesis by simp
    qed
  qed
qed

text \<open>
  A number: an optional minus sign, an integer part without a leading zero, an
  optional fraction and an optional exponent.
\<close>

definition lex_exponent :: "string \<Rightarrow> (int \<times> string) option" where
  "lex_exponent s =
     (case s of
        [] \<Rightarrow> Some (0, s)
      | e # r \<Rightarrow>
          if e = CHR ''e'' \<or> e = CHR ''E'' then
            (let neg = (r \<noteq> [] \<and> hd r = CHR ''-'');
                 r1 = (if r \<noteq> [] \<and> (hd r = CHR ''-'' \<or> hd r = CHR ''+'') then tl r else r);
                 ds = takeWhile is_digit r1
             in if ds = [] then None
                else Some ((if neg then - int (digits_val ds) else int (digits_val ds)),
                           dropWhile is_digit r1))
          else Some (0, s))"

definition lex_fraction :: "string \<Rightarrow> (rat \<times> string) option" where
  "lex_fraction s =
     (case s of
        [] \<Rightarrow> Some (0, s)
      | p # r \<Rightarrow>
          if p = CHR ''.'' then
            (let ds = takeWhile is_digit r
             in if ds = [] then None
                else Some (of_nat (digits_val ds) / 10 ^ length ds, dropWhile is_digit r))
          else Some (0, s))"

definition lex_int :: "string \<Rightarrow> (nat \<times> string) option" where
  "lex_int s =
     (case s of
        [] \<Rightarrow> None
      | d # r \<Rightarrow>
          if d = CHR ''0'' then Some (0, r)
          else if is_digit d then Some (digits_val (takeWhile is_digit s), dropWhile is_digit s)
          else None)"

definition scale10 :: "rat \<Rightarrow> int \<Rightarrow> rat" where
  "scale10 m e = (if e < 0 then m / 10 ^ nat (- e) else m * 10 ^ nat e)"

definition lex_number :: "string \<Rightarrow> (rat \<times> string) option" where
  "lex_number s =
     (let neg = (s \<noteq> [] \<and> hd s = CHR ''-'');
          s1 = (if neg then tl s else s)
      in case lex_int s1 of
           None \<Rightarrow> None
         | Some (i, s2) \<Rightarrow>
             (case lex_fraction s2 of
                None \<Rightarrow> None
              | Some (f, s3) \<Rightarrow>
                  (case lex_exponent s3 of
                     None \<Rightarrow> None
                   | Some (e, s4) \<Rightarrow>
                       Some (scale10 (if neg then - (of_nat i + f) else of_nat i + f) e, s4))))"

text \<open>One token that starts with the character \<open>c\<close>, and the text after it.\<close>

definition lex_punct :: "char \<Rightarrow> token option" where
  "lex_punct c =
     (if c = CHR ''{'' then Some TLBrace
      else if c = CHR ''}'' then Some TRBrace
      else if c = CHR ''['' then Some TLBrack
      else if c = CHR '']'' then Some TRBrack
      else if c = CHR '':'' then Some TColon
      else if c = CHR '','' then Some TComma
      else None)"

definition lex_literal :: "string \<Rightarrow> (token \<times> string) option" where
  "lex_literal s =
     (if starts_with ''true'' s then Some (TTrue, drop 4 s)
      else if starts_with ''false'' s then Some (TFalse, drop 5 s)
      else if starts_with ''null'' s then Some (TNull, drop 4 s)
      else None)"

definition lex_token :: "char \<Rightarrow> string \<Rightarrow> (token \<times> string) option" where
  "lex_token c cs =
     (case lex_punct c of
        Some t \<Rightarrow> Some (t, cs)
      | None \<Rightarrow>
          if c = CHR 0x22 then map_option (\<lambda>(s, rest). (TStr s, rest)) (lex_string cs)
          else if c = CHR ''-'' \<or> is_digit c then
            map_option (\<lambda>(r, rest). (TNum r, rest)) (lex_number (c # cs))
          else lex_literal (c # cs))"

lemma lex_exponent_length: "lex_exponent s = Some (e, rest) \<Longrightarrow> length rest \<le> length s"
proof -
  have dw: "length (dropWhile is_digit xs) \<le> length xs" for xs
    by (rule length_dropWhile_le)
  have tl_le: "length (dropWhile is_digit (tl xs)) \<le> length xs" for xs
    using dw [of "tl xs"] by (cases xs) auto
  assume "lex_exponent s = Some (e, rest)"
  then show ?thesis
    using dw tl_le
    by (cases s) (auto simp: lex_exponent_def Let_def le_SucI split: if_splits)
qed

lemma lex_fraction_length: "lex_fraction s = Some (f, rest) \<Longrightarrow> length rest \<le> length s"
  by (cases s) (auto simp: lex_fraction_def Let_def le_SucI length_dropWhile_le split: if_splits)

lemma lex_int_length: "lex_int s = Some (i, rest) \<Longrightarrow> length rest < length s"
proof -
  assume a: "lex_int s = Some (i, rest)"
  show ?thesis
  proof (cases s)
    case Nil
    with a show ?thesis by (simp add: lex_int_def)
  next
    case (Cons d r)
    have "length (dropWhile is_digit r) \<le> length r" by (rule length_dropWhile_le)
    with a Cons show ?thesis
      by (auto simp: lex_int_def split: if_splits)
  qed
qed

lemma lex_number_length: "lex_number s = Some (r, rest) \<Longrightarrow> length rest < length s"
proof -
  assume a: "lex_number s = Some (r, rest)"
  define s1 where "s1 = (if s \<noteq> [] \<and> hd s = CHR ''-'' then tl s else s)"
  have s1: "length s1 \<le> length s" by (simp add: s1_def)
  from a obtain i s2 f s3 e where
    i: "lex_int s1 = Some (i, s2)" and f: "lex_fraction s2 = Some (f, s3)"
    and e: "lex_exponent s3 = Some (e, rest)"
    by (auto simp: lex_number_def Let_def s1_def split: option.splits)
  from lex_int_length [OF i] lex_fraction_length [OF f] lex_exponent_length [OF e] s1
  show ?thesis by linarith
qed

lemma lex_literal_length: "lex_literal (c # cs) = Some (t, rest) \<Longrightarrow> length rest \<le> length cs"
  by (auto simp: lex_literal_def split: if_splits)

lemma lex_token_length:
  assumes "lex_token c cs = Some (t, rest)"
  shows "length rest < Suc (length cs)"
proof (cases "lex_punct c")
  case (Some p)
  with assms show ?thesis by (simp add: lex_token_def)
next
  case None
  show ?thesis
  proof (cases "c = CHR 0x22")
    case True
    with None assms obtain s where "lex_string cs = Some (s, rest)"
      by (auto simp: lex_token_def)
    then show ?thesis by (rule lex_string_length)
  next
    case quote: False
    show ?thesis
    proof (cases "c = CHR ''-'' \<or> is_digit c")
      case True
      with None quote assms obtain r where "lex_number (c # cs) = Some (r, rest)"
        by (auto simp: lex_token_def)
      from lex_number_length [OF this] show ?thesis by simp
    next
      case False
      with None quote assms have "lex_literal (c # cs) = Some (t, rest)"
        by (simp add: lex_token_def)
      from lex_literal_length [OF this] show ?thesis by simp
    qed
  qed
qed

function tokenize :: "string \<Rightarrow> token list option" where
  "tokenize [] = Some []"
| "tokenize (c # cs) =
     (if is_ws c then tokenize cs
      else (case lex_token c cs of
              None \<Rightarrow> None
            | Some (t, rest) \<Rightarrow> map_option ((#) t) (tokenize rest)))"
  by pat_completeness auto
termination
  by (relation "measure length") (auto dest: lex_token_length)

subsection \<open>The grammar over tokens\<close>

text \<open>
  The machine keeps the containers that are still open on a stack, innermost first:
  an array with the elements read so far, an object with its members so far, and above
  an object the key whose value is being read. Elements and members are kept in reverse.
\<close>

datatype frame = FArr "json list" | FObj "(string \<times> json) list" | FKey string

datatype expect =
    EValue | EValueOrEnd | ECommaOrEnd | EKeyOrEnd | EKey | EColon | EDone json

type_synonym pstate = "expect \<times> frame list"

fun complete :: "json \<Rightarrow> frame list \<Rightarrow> pstate option" where
  "complete v [] = Some (EDone v, [])"
| "complete v (FArr xs # st) = Some (ECommaOrEnd, FArr (v # xs) # st)"
| "complete v (FKey k # FObj ms # st) = Some (ECommaOrEnd, FObj ((k, v) # ms) # st)"
| "complete v _ = None"

fun start_value :: "token \<Rightarrow> frame list \<Rightarrow> pstate option" where
  "start_value (TStr s) st = complete (JStr s) st"
| "start_value (TNum r) st = complete (JNum r) st"
| "start_value TTrue st = complete (JBool True) st"
| "start_value TFalse st = complete (JBool False) st"
| "start_value TNull st = complete JNull st"
| "start_value TLBrack st = Some (EValueOrEnd, FArr [] # st)"
| "start_value TLBrace st = Some (EKeyOrEnd, FObj [] # st)"
| "start_value _ st = None"

fun close_array :: "frame list \<Rightarrow> pstate option" where
  "close_array (FArr xs # st) = complete (JArr (rev xs)) st"
| "close_array _ = None"

fun close_object :: "frame list \<Rightarrow> pstate option" where
  "close_object (FObj ms # st) = complete (JObj (rev ms)) st"
| "close_object _ = None"

fun after_comma :: "frame list \<Rightarrow> pstate option" where
  "after_comma (FArr xs # st) = Some (EValue, FArr xs # st)"
| "after_comma (FObj ms # st) = Some (EKey, FObj ms # st)"
| "after_comma _ = None"

fun pstep :: "pstate \<Rightarrow> token \<Rightarrow> pstate option" where
  "pstep (EValue, st) t = start_value t st"
| "pstep (EValueOrEnd, st) t = (if t = TRBrack then close_array st else start_value t st)"
| "pstep (ECommaOrEnd, st) t =
     (if t = TComma then after_comma st
      else if t = TRBrack then close_array st
      else if t = TRBrace then close_object st
      else None)"
| "pstep (EKeyOrEnd, st) t =
     (case t of TStr k \<Rightarrow> Some (EColon, FKey k # st) | TRBrace \<Rightarrow> close_object st | _ \<Rightarrow> None)"
| "pstep (EKey, st) t = (case t of TStr k \<Rightarrow> Some (EColon, FKey k # st) | _ \<Rightarrow> None)"
| "pstep (EColon, st) t = (if t = TColon then Some (EValue, st) else None)"
| "pstep (EDone v, st) t = None"

fun prun :: "pstate \<Rightarrow> token list \<Rightarrow> pstate option" where
  "prun s [] = Some s"
| "prun s (t # ts) = (case pstep s t of None \<Rightarrow> None | Some s' \<Rightarrow> prun s' ts)"

definition JSON_parse :: "string \<Rightarrow> json option" where
  "JSON_parse s =
     (case tokenize s of
        None \<Rightarrow> None
      | Some ts \<Rightarrow>
          (case prun (EValue, []) ts of
             Some (EDone v, _) \<Rightarrow> Some v
           | _ \<Rightarrow> None))"

section \<open>The event transcoder\<close>

text \<open>
  \<^verbatim>\<open>createParser(streamParser)\<close> calls \<^verbatim>\<open>streamParser\<close> once for each server-sent event of
  the upstream body, in order. An event is an \<^verbatim>\<open>event\<close> with its data, or a
  \<^verbatim>\<open>reconnect-interval\<close>.

  The controller of the outgoing \<^verbatim>\<open>ReadableStream\<close>: the chunks enqueued so far, in order,
  and the state of the stream. \<^verbatim>\<open>enqueue\<close> and \<^verbatim>\<open>close\<close> throw a TypeError on a stream that
  is no longer readable; \<^verbatim>\<open>error\<close> does nothing there. Closing is modelled as reaching the
  closed state at once: the chunks enqueued before it are still delivered, in order.
\<close>

datatype stream_state = Readable | Closed | Errored

record controller =
  chunks :: "string list"
  state :: stream_state

definition enqueue :: "controller \<Rightarrow> string \<Rightarrow> exn + controller" where
  "enqueue c q =
     (if state c = Readable then Inr (c\<lparr>chunks := chunks c @ [q]\<rparr>) else Inl TypeError)"

definition close :: "controller \<Rightarrow> exn + controller" where
  "close c = (if state c = Readable then Inr (c\<lparr>state := Closed\<rparr>) else Inl TypeError)"

definition error :: "controller \<Rightarrow> controller" where
  "error c = (if state c = Readable then c\<lparr>state := Errored\<rparr> else c)"

text \<open>\<^verbatim>\<open>json.choices[0].delta?.content\<close>\<close>

definition delta_content :: "json \<Rightarrow> exn + jsval" where
  "delta_content j =
     (case member (Some j) (\<lambda>v. Get v ''choices'') of
        Inl e \<Rightarrow> Inl e
      | Inr choices \<Rightarrow>
          (case member choices Get0 of
             Inl e \<Rightarrow> Inl e
           | Inr choice \<Rightarrow>
               (case member choice (\<lambda>v. Get v ''delta'') of
                  Inl e \<Rightarrow> Inl e
                | Inr delta \<Rightarrow> Inr (opt_member delta (\<lambda>v. Get v ''content'')))))"

text \<open>
  \<^verbatim>\<open>encoder.encode(text)\<close>: the argument defaults to the empty string when it is
  \<^verbatim>\<open>undefined\<close>, and is converted to a string otherwise.
\<close>

definition encode :: "host \<Rightarrow> jsval \<Rightarrow> exn + string" where
  "encode h t = (case t of None \<Rightarrow> Inr [] | Some v \<Rightarrow> ToString h v)"

text \<open>The body of the \<^verbatim>\<open>try\<close> block of \<^verbatim>\<open>streamParser\<close>.\<close>

definition parse_and_enqueue :: "host \<Rightarrow> controller \<Rightarrow> string \<Rightarrow> exn + controller" where
  "parse_and_enqueue h c data =
     (case JSON_parse data of
        None \<Rightarrow> Inl SyntaxError
      | Some json \<Rightarrow>
          (case delta_content json of
             Inl e \<Rightarrow> Inl e
           | Inr text \<Rightarrow>
               (case encode h text of
                  Inl e \<Rightarrow> Inl e
                | Inr queue \<Rightarrow> enqueue c queue)))"

text \<open>
  \<^verbatim>\<open>streamParser\<close>: \<open>Inl\<close> is an exception that leaves the callback, which only
  \<^verbatim>\<open>controller.close()\<close> can raise, since it stands outside the \<^verbatim>\<open>try\<close>.
\<close>

definition streamParser :: "host \<Rightarrow> controller \<Rightarrow> sse \<Rightarrow> exn + controller" where
  "streamParser h c event =
     (case event of
        ReconnectInterval _ \<Rightarrow> Inr c
      | Event data \<Rightarrow>
          if data = ''[DONE]'' then close c
          else (case parse_and_enqueue h c data of
                  Inl e \<Rightarrow> Inr (error c)
                | Inr c' \<Rightarrow> Inr c'))"

text \<open>
  The loop of \<^verbatim>\<open>start\<close> over the events of the body. An exception that leaves
  \<^verbatim>\<open>streamParser\<close> ends the loop; the stream is then already closed or errored and
  stays as it is.
\<close>

fun feed :: "host \<Rightarrow> controller \<Rightarrow> sse list \<Rightarrow> controller" where
  "feed h c [] = c"
| "feed h c (e # es) = (case streamParser h c e of Inl _ \<Rightarrow> c | Inr c' \<Rightarrow> feed h c' es)"

definition start :: "host \<Rightarrow> sse list \<Rightarrow> controller" where
  "start h events = feed h \<lparr>chunks = [], state = Readable\<rparr> events"

text \<open>
  \<open>first_choice j\<close> is the first element of the \<^verbatim>\<open>choices\<close> field of a parsed payload,
  \<open>None\<close> when there is no such field or no such element.
\<close>

definition first_choice :: "json \<Rightarrow> jsval" where
  "first_choice j = (case Get j ''choices'' of None \<Rightarrow> None | Some choices \<Rightarrow> Get0 choices)"

section \<open>Billing lookup\<close>

text \<open>
  What \<^verbatim>\<open>await fetch(url, { headers }).then(r => r.json())\<close> comes to: the request fails,
  the body is not JSON, or the body parses to a value.
\<close>

datatype fetched = NetworkError | NotJson | Parsed json

definition await_json :: "fetched \<Rightarrow> exn + json" where
  "await_json r =
     (case r of NetworkError \<Rightarrow> Inl TypeError | NotJson \<Rightarrow> Inl SyntaxError | Parsed j \<Rightarrow> Inr j)"

record Billing =
  key :: string
  rate :: jsnum
  totalGranted :: jsval
  totalUsed :: jsnum
  totalAvailable :: jsnum

text \<open>\<^verbatim>\<open>throw new Error(subscriptionData.error.message)\<close>\<close>

definition new_Error :: "host \<Rightarrow> jsval \<Rightarrow> exn" where
  "new_Error h m =
     (case m of
        None \<Rightarrow> Error []
      | Some v \<Rightarrow> (case ToString h v of Inl e \<Rightarrow> e | Inr t \<Rightarrow> Error t))"

text \<open>
  The \<^verbatim>\<open>try\<close> block of \<^verbatim>\<open>fetchBilling\<close>. The two requests differ only in their address; their
  outcomes are the arguments \<open>subscription\<close> and \<open>usage\<close>. The second request is made only
  when the first one has passed. The constants \<^verbatim>\<open>totalGranted\<close>, \<^verbatim>\<open>totalUsed\<close> and
  \<^verbatim>\<open>totalAvailable\<close> of the source are \<open>granted\<close>, \<open>used\<close> and \<open>available\<close> here, the fields
  of the record having their names.
\<close>

definition fetchBilling_try :: "host \<Rightarrow> string \<Rightarrow> fetched \<Rightarrow> fetched \<Rightarrow> exn + Billing" where
  "fetchBilling_try h k subscription usage =
     and_then (await_json subscription) (\<lambda>subscriptionData.
     and_then (member (Some subscriptionData) (\<lambda>v. Get v ''error'')) (\<lambda>err.
       if truthy (opt_member err (\<lambda>v. Get v ''message''))
       then Inl (new_Error h (opt_member err (\<lambda>v. Get v ''message'')))
       else
     and_then (member (Some subscriptionData) (\<lambda>v. Get v ''hard_limit_usd'')) (\<lambda>granted.
     and_then (await_json usage) (\<lambda>usageData.
     and_then (member (Some usageData) (\<lambda>v. Get v ''total_usage'')) (\<lambda>total_usage.
     and_then (ToNumber h total_usage) (\<lambda>u.
     and_then (ToNumber h granted) (\<lambda>g.
       let used = js_div u (Fin 100);
           available = js_sub g used
       in Inr \<lparr>key = k, rate = js_div available g, totalGranted = granted,
                totalUsed = used, totalAvailable = available\<rparr>)))))))"

text \<open>The record of the \<^verbatim>\<open>catch\<close> block.\<close>

definition unusable :: "string \<Rightarrow> Billing" where
  "unusable k =
     \<lparr>key = k, rate = Fin 0, totalGranted = Some (JNum 0), totalUsed = Fin 0,
      totalAvailable = Fin 0\<rparr>"

definition fetchBilling :: "host \<Rightarrow> string \<Rightarrow> fetched \<Rightarrow> fetched \<Rightarrow> Billing" where
  "fetchBilling h k subscription usage =
     (case fetchBilling_try h k subscription usage of Inl e \<Rightarrow> unusable k | Inr b \<Rightarrow> b)"

section \<open>The billing table\<close>

subsection \<open>Array.prototype.sort\<close>

text \<open>
  The sort of the edge runtime (V8) on an array of fewer than 64 elements: the run at
  the start of the array is found and reversed when it descends, then each later
  element is put in its place by a binary search. The comparator is called with the
  later element first; a result that is NaN counts as zero. When the comparator is
  consistent, this is a stable sort; the language leaves the order open otherwise.
\<close>

definition SortCompare :: "('a \<Rightarrow> 'a \<Rightarrow> jsnum) \<Rightarrow> 'a \<Rightarrow> 'a \<Rightarrow> jsnum" where
  "SortCompare comparefn x y = (case comparefn x y of NaN \<Rightarrow> Fin 0 | v \<Rightarrow> v)"

definition negative :: "jsnum \<Rightarrow> bool" where
  "negative v = js_lt v (Fin 0)"

fun extend_run :: "('a \<Rightarrow> 'a \<Rightarrow> jsnum) \<Rightarrow> bool \<Rightarrow> 'a \<Rightarrow> 'a list \<Rightarrow> nat" where
  "extend_run comparefn descending previous [] = 0"
| "extend_run comparefn descending previous (x # xs) =
     (if descending \<noteq> negative (SortCompare comparefn x previous) then 0
      else Suc (extend_run comparefn descending x xs))"

definition CountAndMakeRun :: "('a \<Rightarrow> 'a \<Rightarrow> jsnum) \<Rightarrow> 'a list \<Rightarrow> 'a list \<times> nat" where
  "CountAndMakeRun comparefn xs =
     (case xs of
        a # b # rest \<Rightarrow>
          (let descending = negative (SortCompare comparefn b a);
               n = 2 + extend_run comparefn descending b rest
           in ((if descending then rev (take n xs) else take n xs) @ drop n xs, n))
      | _ \<Rightarrow> (xs, length xs))"

function binary_search ::
  "('a \<Rightarrow> 'a \<Rightarrow> jsnum) \<Rightarrow> 'a \<Rightarrow> 'a list \<Rightarrow> nat \<Rightarrow> nat \<Rightarrow> nat" where
  "binary_search comparefn pivot xs left right =
     (if left < right then
        (let mid = left + (right - left) div 2
         in if negative (SortCompare comparefn pivot (xs ! mid))
            then binary_search comparefn pivot xs left mid
            else binary_search comparefn pivot xs (mid + 1) right)
      else left)"
  by pat_completeness auto
termination
  by (relation "measure (\<lambda>(comparefn, pivot, xs, left, right). right - left)") auto

fun BinaryInsertionSort :: "('a \<Rightarrow> 'a \<Rightarrow> jsnum) \<Rightarrow> 'a list \<Rightarrow> 'a list \<Rightarrow> 'a list" where
  "BinaryInsertionSort comparefn work [] = work"
| "BinaryInsertionSort comparefn work (pivot # rest) =
     (let left = binary_search comparefn pivot work 0 (length work)
      in BinaryInsertionSort comparefn (take left work @ pivot # drop left work) rest)"

definition Array_sort :: "('a \<Rightarrow> 'a \<Rightarrow> jsnum) \<Rightarrow> 'a list \<Rightarrow> 'a list" where
  "Array_sort comparefn xs =
     (if length xs < 2 then xs
      else (let (ys, n) = CountAndMakeRun comparefn xs
            in BinaryInsertionSort comparefn (take n ys) (drop n ys)))"

subsection \<open>genBillingsTable\<close>

text \<open>\<^verbatim>\<open>v === 0\<close>\<close>

definition is_zero :: "jsval \<Rightarrow> bool" where
  "is_zero v \<longleftrightarrow> v = Some (JNum 0)"

text \<open>The comparator \<^verbatim>\<open>(m, n) => (m.totalGranted === 0 ? -1 : n.rate - m.rate)\<close>\<close>

definition billing_cmp :: "Billing \<Rightarrow> Billing \<Rightarrow> jsnum" where
  "billing_cmp m n = (if is_zero (totalGranted m) then Fin (- 1) else js_sub (rate n) (rate m))"

definition sorted_billings :: "Billing list \<Rightarrow> Billing list" where
  "sorted_billings billings = Array_sort billing_cmp billings"

text \<open>A value inside a template literal.\<close>

definition template :: "host \<Rightarrow> jsval \<Rightarrow> exn + string" where
  "template h v = (case v of None \<Rightarrow> Inr ''undefined'' | Some j \<Rightarrow> ToString h j)"

text \<open>The words of the row of an unusable key, in UTF-8.\<close>

definition unavailable :: string where
  "unavailable = [CHR 0xE4, CHR 0xB8, CHR 0x8D, CHR 0xE5, CHR 0x8F, CHR 0xAF, CHR 0xE7, CHR 0x94, CHR 0xA8]"

definition dashes :: string where
  "dashes = [CHR 0xE2, CHR 0x80, CHR 0x94, CHR 0xE2, CHR 0x80, CHR 0x94]"

definition table_row :: "host \<Rightarrow> Billing \<Rightarrow> exn + string" where
  "table_row h k =
     (if is_zero (totalGranted k)
      then Inr (''| '' @ take 8 (key k) @ '' | '' @ unavailable @ '' | '' @ dashes @ '' | ''
                @ dashes @ '' |'')
      else and_then (template h (totalGranted k)) (\<lambda>granted.
             Inr (''| '' @ take 8 (key k) @ '' | '' @ toFixed h (totalAvailable k) 4 @ ''(''
                  @ toFixed h (js_mul (rate k) (Fin 100)) 1 @ ''%) | ''
                  @ toFixed h (totalUsed k) 4 @ '' | '' @ granted @ '' |'')))"

fun collect :: "(exn + 'a) list \<Rightarrow> exn + 'a list" where
  "collect [] = Inr []"
| "collect (x # xs) = and_then x (\<lambda>v. and_then (collect xs) (\<lambda>vs. Inr (v # vs)))"

fun join :: "string \<Rightarrow> string list \<Rightarrow> string" where
  "join sep [] = []"
| "join sep [x] = x"
| "join sep (x # y # ys) = x @ sep @ join sep (y # ys)"

definition genBillingsTable :: "host \<Rightarrow> Billing list \<Rightarrow> exn + string" where
  "genBillingsTable h billings =
     and_then (collect (map (table_row h) (sorted_billings billings))) (\<lambda>rows.
       Inr (''| Key  | Remaining | Used | Gross magnitude |'' @ [CHR 0x0A]
            @ ''| ---- | ---- | ---- | ------ |'' @ [CHR 0x0A]
            @ join [CHR 0x0A] rows @ [CHR 0x0A]))"

section \<open>Configuration\<close>

text \<open>
  The environment of the module: the variables it reads, and what it imports from
  \<^verbatim>\<open>~/system\<close>, \<^verbatim>\<open>~/utils\<close> and \<^verbatim>\<open>~/utils/tokens\<close>, which are parameters here. A table of
  limits is the list of the entries of the JavaScript object, the last entry of a
  name being the one that counts. \<open>randomKey\<close> stands for the choice of one run.
\<close>

record env =
  OPENAI_API_KEY :: "string option"
  MAX_INPUT_TOKENS :: "string option"
  PASSWORD :: "string option"
  defaultMaxInputTokens :: "(string \<times> json) list"
  defaultModel :: string
  countTokens :: "string \<Rightarrow> int"
  splitKeys :: "string \<Rightarrow> string list"
  randomKey :: "string list \<Rightarrow> string option"

definition localKey :: "env \<Rightarrow> string" where
  "localKey e = (case OPENAI_API_KEY e of None \<Rightarrow> [] | Some k \<Rightarrow> k)"

definition lookup :: "(string \<times> json) list \<Rightarrow> string \<Rightarrow> jsval" where
  "lookup table k = map_of (rev table) k"

definition isInteger :: "jsnum \<Rightarrow> bool" where
  "isInteger x = (case x of Fin r \<Rightarrow> of_int \<lfloor>r\<rfloor> = r | _ \<Rightarrow> False)"

function show_nat :: "nat \<Rightarrow> string" where
  "show_nat n = (if n < 10 then [char_of (48 + n)] else show_nat (n div 10) @ [char_of (48 + n mod 10)])"
  by pat_completeness auto
termination
  by (relation "measure id") auto

text \<open>The entries that an object spread \<^verbatim>\<open>{...v}\<close> copies from a parsed value.\<close>

fun own_properties :: "json \<Rightarrow> (string \<times> json) list" where
  "own_properties (JObj ms) = ms"
| "own_properties (JArr xs) = zip (map show_nat [0..<length xs]) xs"
| "own_properties (JStr s) = zip (map show_nat [0..<length s]) (map (\<lambda>c. JStr [c]) s)"
| "own_properties _ = []"

text \<open>
  The table \<^verbatim>\<open>maxInputTokens\<close> as the module leaves it after it has read
  \<^verbatim>\<open>MAX_INPUT_TOKENS\<close>: an integer replaces the limit of every model of the default table,
  a JSON object is laid over the default table, and a value that is neither leaves the
  default table as it is.
\<close>

definition maxInputTokens :: "host \<Rightarrow> env \<Rightarrow> (string \<times> json) list" where
  "maxInputTokens h e =
     (case MAX_INPUT_TOKENS e of
        None \<Rightarrow> defaultMaxInputTokens e
      | Some v \<Rightarrow>
          if v = [] then defaultMaxInputTokens e
          else (case ToNumber h (Some (JStr v)) of
                  Inl ex \<Rightarrow> defaultMaxInputTokens e
                | Inr x \<Rightarrow>
                    if isInteger x
                    then map (\<lambda>(k, old). (k, (case x of Fin r \<Rightarrow> JNum r | _ \<Rightarrow> old)))
                           (defaultMaxInputTokens e)
                    else (case JSON_parse v of
                            None \<Rightarrow> defaultMaxInputTokens e
                          | Some j \<Rightarrow> defaultMaxInputTokens e @ own_properties j)))"

section \<open>The request handler\<close>

record message =
  role :: string
  content :: string

text \<open>
  The parsed body of a request. The field \<^verbatim>\<open>key\<close> is \<open>body_key\<close> here; \<^verbatim>\<open>temperature\<close> only
  goes into the upstream request and is left out.
\<close>

record request_body =
  messages :: "message list option"
  body_key :: "string option"
  password :: "string option"
  model :: "string option"

datatype response_body = Bytes string | Envelope string | Stream controller

record response =
  status :: nat
  statusText :: string
  body :: response_body

text \<open>\<^verbatim>\<open>new Response(body)\<close> and the response \<^verbatim>\<open>{ error: { message } }\<close> with a status.\<close>

definition Response :: "response_body \<Rightarrow> response" where
  "Response b = \<lparr>status = 200, statusText = [], body = b\<rparr>"

definition error_response :: "string \<Rightarrow> nat \<Rightarrow> response" where
  "error_response m st = \<lparr>status = st, statusText = [], body = Envelope m\<rparr>"

definition ok :: "response \<Rightarrow> bool" where
  "ok r \<longleftrightarrow> 200 \<le> status r \<and> status r \<le> 299"

text \<open>
  The network, as the handler meets it: the outcomes of the two billing requests made
  with a key, and the outcome of the completion request made with a key, which is
  rejected with a message or answered with a status, a status text and a body.
\<close>

datatype fetch_result = Rejected string | Responded nat string string

record net =
  subscription :: "string \<Rightarrow> fetched"
  usage :: "string \<Rightarrow> fetched"
  completion :: "string \<Rightarrow> fetch_result"

text \<open>What the handler does that can be seen from outside, in the order it does it.\<close>

datatype action = SelectKey | CheckBudget | GetBilling string | PostCompletion string

definition is_space :: "char \<Rightarrow> bool" where
  "is_space c \<longleftrightarrow> c \<in> set [CHR 0x09, CHR 0x0A, CHR 0x0B, CHR 0x0C, CHR 0x0D, CHR '' '']"

text \<open>\<^verbatim>\<open>String.prototype.trim\<close>, on the white space of ASCII.\<close>

definition trim :: "string \<Rightarrow> string" where
  "trim s = rev (dropWhile is_space (rev (dropWhile is_space s)))"

definition truthy_string :: "string option \<Rightarrow> bool" where
  "truthy_string v \<longleftrightarrow> (case v of None \<Rightarrow> False | Some t \<Rightarrow> t \<noteq> [])"

text \<open>
  \<^verbatim>\<open>await Promise.all(splitKeys(key).map(k => fetchBilling(k)))\<close> and the response made of
  the table.
\<close>

definition billings_of :: "host \<Rightarrow> net \<Rightarrow> string list \<Rightarrow> Billing list" where
  "billings_of h n keys = map (\<lambda>k. fetchBilling h k (subscription n k) (usage n k)) keys"

definition billing_response :: "host \<Rightarrow> net \<Rightarrow> string list \<Rightarrow> (exn + response) \<times> action list" where
  "billing_response h n keys =
     (and_then (genBillingsTable h (billings_of h n keys)) (\<lambda>table. Inr (Response (Bytes table))),
      map GetBilling keys)"

text \<open>The sum of the token counts of the messages.\<close>

definition estimate :: "env \<Rightarrow> message list \<Rightarrow> int" where
  "estimate e msgs = foldl (\<lambda>acc cur. acc + countTokens e (content cur)) 0 msgs"

text \<open>\<^verbatim>\<open>body.key ? defaultMaxInputTokens[model] : maxInputTokens[model]\<close>\<close>

definition limit_for :: "host \<Rightarrow> env \<Rightarrow> string option \<Rightarrow> string \<Rightarrow> jsval" where
  "limit_for h e k m =
     (if truthy_string k then lookup (defaultMaxInputTokens e) m else lookup (maxInputTokens h e) m)"

text \<open>\<^verbatim>\<open>tokens > limit\<close>\<close>

definition exceeds :: "host \<Rightarrow> int \<Rightarrow> jsval \<Rightarrow> exn + bool" where
  "exceeds h tokens limit = and_then (ToNumber h limit) (\<lambda>l. Inr (js_gt (Fin (of_int tokens)) l))"

definition conversation_too_long :: string where
  "conversation_too_long = ''This conversation is too long because the continuous conversation option is turned on, please clear some of the content and try again, or turn off the continuous conversation option.''"

definition too_long :: string where
  "too_long = ''It's too long, shorten it a bit.''"

text \<open>
  The answer to an upstream response: one that is not \<^verbatim>\<open>ok\<close> is passed on with its
  status, status text and body; the body of one that is \<^verbatim>\<open>ok\<close> goes through
  \<^verbatim>\<open>streamParser\<close>.
\<close>

definition relay_or_stream :: "host \<Rightarrow> response \<Rightarrow> response" where
  "relay_or_stream h rawRes =
     (if \<not> ok rawRes
      then \<lparr>status = status rawRes, statusText = statusText rawRes, body = body rawRes\<rparr>
      else Response (Stream (start h (case body rawRes of Bytes raw \<Rightarrow> createParser h raw | _ \<Rightarrow> []))))"

text \<open>\<^verbatim>\<open>await fetchWithTimeout(...).catch(err => new Response(..., { status: 500 }))\<close>\<close>

definition fetch_completion :: "net \<Rightarrow> string \<Rightarrow> response" where
  "fetch_completion n apiKey =
     (case completion n apiKey of
        Rejected m \<Rightarrow> error_response m 500
      | Responded st txt raw \<Rightarrow> \<lparr>status = st, statusText = txt, body = Bytes raw\<rparr>)"

text \<open>The variables \<^verbatim>\<open>key\<close> and \<^verbatim>\<open>model\<close>, with their defaults \<^verbatim>\<open>localKey\<close> and \<^verbatim>\<open>defaultModel\<close>.\<close>

definition key_of :: "env \<Rightarrow> request_body \<Rightarrow> string" where
  "key_of e b = (case body_key b of None \<Rightarrow> localKey e | Some k \<Rightarrow> k)"

definition model_of :: "env \<Rightarrow> request_body \<Rightarrow> string" where
  "model_of e b = (case model b of None \<Rightarrow> defaultModel e | Some m \<Rightarrow> m)"

text \<open>
  The second half of the \<^verbatim>\<open>try\<close> block of \<^verbatim>\<open>post\<close>, from the choice of a key on: what it
  returns or throws, and the actions it has taken. Its arguments \<open>k\<close> and \<open>m\<close> are the
  variables \<^verbatim>\<open>key\<close> and \<^verbatim>\<open>model\<close> of the source.
\<close>

definition complete_chat ::
  "host \<Rightarrow> env \<Rightarrow> net \<Rightarrow> request_body \<Rightarrow> string \<Rightarrow> string \<Rightarrow> message list
    \<Rightarrow> (exn + response) \<times> action list" where
  "complete_chat h e n b k m msgs =
     (let apiKey = randomKey e (splitKeys e k)
      in
      if \<not> truthy_string apiKey
      then (Inl (Error ''The OpenAI API key is not filled in, or the key is incorrect.''),
            [SelectKey])
      else
        (let tokens = estimate e msgs
         in
         case exceeds h tokens (limit_for h e (body_key b) m) of
           Inl ex \<Rightarrow> (Inl ex, [SelectKey, CheckBudget])
         | Inr True \<Rightarrow>
             (Inl (Error (if length msgs > 1 then conversation_too_long else too_long)),
              [SelectKey, CheckBudget])
         | Inr False \<Rightarrow>
             (Inr (relay_or_stream h (fetch_completion n (the apiKey))),
              [SelectKey, CheckBudget, PostCompletion (the apiKey)])))"

text \<open>
  The \<^verbatim>\<open>try\<close> block of \<^verbatim>\<open>post\<close>, after the body of the request has been parsed: the
  password, the messages, the two commands that ask for the balance, and then the
  completion.
\<close>

definition post_try ::
  "host \<Rightarrow> env \<Rightarrow> net \<Rightarrow> request_body \<Rightarrow> (exn + response) \<times> action list" where
  "post_try h e n b =
     (let key = key_of e b;
          model = model_of e b
      in
      if truthy_string (PASSWORD e) \<and> PASSWORD e \<noteq> password b
      then (Inl (Error ''The password is incorrect, please contact the webmaster.''), [])
      else
        (case messages b of
           None \<Rightarrow> (Inl (Error '' No text was entered''), [])
         | Some msgs \<Rightarrow>
             if msgs = [] then (Inl (Error '' No text was entered''), [])
             else
               (let content = trim (content (last msgs))
                in
                if starts_with ''Check the balance'' content then
                  (if key \<noteq> localKey e then billing_response h n (splitKeys e key)
                   else (Inl (Error ''If the OpenAI API key is not filled in, the built-in key will not be queried.''), []))
                else if starts_with ''sk-'' content then billing_response h n (splitKeys e content)
                else complete_chat h e n b key model msgs)))"

text \<open>
  \<^verbatim>\<open>post\<close>: a request whose body is not JSON (\<open>None\<close>) and every exception of the \<^verbatim>\<open>try\<close>
  block become a response with status 400.
\<close>

definition post :: "host \<Rightarrow> env \<Rightarrow> net \<Rightarrow> request_body option \<Rightarrow> response \<times> action list" where
  "post h e n request =
     (case request of
        None \<Rightarrow> (error_response (message_of h SyntaxError) 400, [])
      | Some b \<Rightarrow>
          (case post_try h e n b of
             (Inl ex, actions) \<Rightarrow> (error_response (message_of h ex) 400, actions)
           | (Inr r, actions) \<Rightarrow> (r, actions)))"

section \<open>A configuration to run the model on\<close>

text \<open>
  A host that reads a string of decimal digits as a number, prints a number with a
  fixed number of decimals (an integer with none) and an object as JavaScript does, an environment with two models and a built-in key, and a network on
  which the key \<open>sk-dead\<close> fails and every other key has a limit of 10 and a usage of 500
  hundredths.
\<close>

definition show_fixed :: "rat \<Rightarrow> nat \<Rightarrow> string" where
  "show_fixed r n =
     (let m = nat \<lfloor>\<bar>r\<bar> * 10 ^ n + 1 / 2\<rfloor>;
          digits = show_nat (m mod 10 ^ n)
      in (if r < 0 then ''-'' else []) @ show_nat (m div 10 ^ n)
         @ (if n = 0 then [] else ''.'' @ replicate (n - length digits) CHR ''0'' @ digits))"

definition sample_host :: host where
  "sample_host =
     \<lparr>ToNumber_other =
        (\<lambda>v. case v of
               JStr s \<Rightarrow> if s \<noteq> [] \<and> list_all is_digit s then Some (Fin (of_nat (digits_val s)))
                         else if s = [] then Some (Fin 0) else Some NaN
             | _ \<Rightarrow> Some NaN),
      ToString_other =
        (\<lambda>v. case v of
               JObj _ \<Rightarrow> Some ''[object Object]''
             | JNum r \<Rightarrow> Some (show_fixed r 0)
             | _ \<Rightarrow> None),
      toFixed = (\<lambda>x n. case x of Fin r \<Rightarrow> show_fixed r n | _ \<Rightarrow> ''NaN''),
      engine_message = (\<lambda>e. ''error''),
      createParser = (\<lambda>raw. [])\<rparr>"

definition split_on :: "(char \<Rightarrow> bool) \<Rightarrow> string \<Rightarrow> string list" where
  "split_on sep s =
     filter (\<lambda>w. w \<noteq> [])
       (foldr (\<lambda>c acc. if sep c then [] # acc else (c # hd acc) # tl acc) s [[]])"

definition sample_env :: env where
  "sample_env =
     \<lparr>OPENAI_API_KEY = Some ''sk-builtin'',
      MAX_INPUT_TOKENS = None,
      PASSWORD = None,
      defaultMaxInputTokens = [(''gpt-3.5-turbo'', JNum 3072), (''gpt-4'', JNum 6144)],
      defaultModel = ''gpt-3.5-turbo'',
      countTokens = (\<lambda>s. int (length s)),
      splitKeys = split_on (\<lambda>c. is_space c \<or> c = CHR '',''),
      randomKey = (\<lambda>ks. case ks of [] \<Rightarrow> None | k # _ \<Rightarrow> Some k)\<rparr>"

definition sample_net :: net where
  \<open>sample_net =
     \<lparr>subscription =
        (\<lambda>k. if k = ''sk-dead'' then NetworkError
             else Parsed (JObj [(''hard_limit_usd'', JNum 10)])),
      usage =
        (\<lambda>k. if k = ''sk-dead'' then NetworkError
             else Parsed (JObj [(''total_usage'', JNum 500)])),
      completion = (\<lambda>k. Responded 429 ''Too Many Requests'' ''{"error":{"message":"Rate limit reached"}}'')\<rparr>\<close>



text \<open>A request with the given texts as its messages and the given key.\<close>

definition sample_request :: "string list \<Rightarrow> string option \<Rightarrow> request_body" where
  "sample_request texts k =
     \<lparr>messages = Some (map (\<lambda>t. \<lparr>role = ''user'', content = t\<rparr>) texts), body_key = k,
      password = None, model = None\<rparr>"

section \<open>Properties of the event transcoder\<close>

lemma JSON_parse_DONE: "JSON_parse ''[DONE]'' = None"
  by (simp add: JSON_parse_def lex_token_def lex_punct_def lex_literal_def starts_with_def
      is_ws_def is_digit_def)

lemma feed_terminal: "state c \<noteq> Readable \<Longrightarrow> feed h c es = c"
proof (induction es)
  case Nil
  show ?case by simp
next
  case (Cons e es)
  have pe: "\<exists>x. parse_and_enqueue h c d = Inl x" for d
    using Cons.prems
    by (simp add: parse_and_enqueue_def enqueue_def split: option.splits sum.splits)
  have "streamParser h c e = Inl TypeError \<or> streamParser h c e = Inr c"
  proof (cases e)
    case (Event d)
    from pe obtain x where "parse_and_enqueue h c d = Inl x" by blast
    with Cons.prems Event show ?thesis
      by (simp add: streamParser_def close_def error_def)
  next
    case (ReconnectInterval n)
    then show ?thesis by (simp add: streamParser_def)
  qed
  with Cons show ?case by auto
qed

lemma delta_content_throws:
  "(\<exists>e. delta_content j = Inl e) \<longleftrightarrow> first_choice j = None \<or> first_choice j = Some JNull"
proof (cases j)
  case (JObj ms)
  show ?thesis
  proof (cases "map_of (rev ms) ''choices''")
    case None
    with JObj show ?thesis by (simp add: delta_content_def first_choice_def member_def)
  next
    case (Some ch)
    show ?thesis
    proof (cases "ch = JNull")
      case True
      with JObj Some show ?thesis by (simp add: delta_content_def first_choice_def member_def)
    next
      case False
      with JObj Some have m: "member (Some j) (\<lambda>v. Get v ''choices'') = Inr (Some ch)"
        by (simp add: member_def)
      from False have m0: "member (Some ch) Get0 = Inr (Get0 ch)"
        by (cases ch) (simp_all add: member_def)
      from JObj Some have fc: "first_choice j = Get0 ch" by (simp add: first_choice_def)
      show ?thesis
      proof (cases "Get0 ch")
        case None
        with m m0 fc show ?thesis by (simp add: delta_content_def member_def)
      next
        case (Some c0)
        with m m0 fc show ?thesis
          by (cases c0) (simp_all add: delta_content_def member_def)
      qed
    qed
  qed
qed (simp_all add: delta_content_def first_choice_def member_def)

text \<open>
  C8. The three events of the example give the chunks \<open>Hi\<close> and \<open> there\<close>, in this order,
  that is the bytes \<open>Hi there\<close>, and leave the stream closed, not errored. In general an
  event whose data is the sentinel \<open>[DONE]\<close> closes a stream that is still readable and
  adds no chunk.
\<close>

theorem transcoder_hi_there:
  \<open>start h [Event ''{"choices":[{"delta":{"content":"Hi"}}]}'',
            Event ''{"choices":[{"delta":{"content":" there"}}]}'',
            Event ''[DONE]'']
     = \<lparr>chunks = [''Hi'', '' there''], state = Closed\<rparr>
   \<and> concat (chunks (start h [Event ''{"choices":[{"delta":{"content":"Hi"}}]}'',
                               Event ''{"choices":[{"delta":{"content":" there"}}]}'',
                               Event ''[DONE]''])) = ''Hi there''
   \<and> (\<forall>c. state c = Readable \<longrightarrow>
          streamParser h c (Event ''[DONE]'') = Inr (c\<lparr>state := Closed\<rparr>))\<close>
proof -
  let ?c0 = "\<lparr>chunks = [], state = Readable\<rparr>"
  let ?c1 = "\<lparr>chunks = [''Hi''], state = Readable\<rparr>"
  let ?c2 = "\<lparr>chunks = [''Hi'', '' there''], state = Readable\<rparr>"
  have p1: \<open>JSON_parse ''{"choices":[{"delta":{"content":"Hi"}}]}''
      = Some (JObj [(''choices'', JArr [JObj [(''delta'', JObj [(''content'', JStr ''Hi'')])]])])\<close>
    by (simp add: JSON_parse_def lex_token_def lex_punct_def is_ws_def)
  have p2: \<open>JSON_parse ''{"choices":[{"delta":{"content":" there"}}]}''
      = Some (JObj [(''choices'', JArr [JObj [(''delta'', JObj [(''content'', JStr '' there'')])]])])\<close>
    by (simp add: JSON_parse_def lex_token_def lex_punct_def is_ws_def)
  have s1: \<open>streamParser h ?c0 (Event ''{"choices":[{"delta":{"content":"Hi"}}]}'') = Inr ?c1\<close>
    by (simp add: streamParser_def parse_and_enqueue_def p1 delta_content_def member_def
        opt_member_def encode_def enqueue_def)
  have s2: \<open>streamParser h ?c1 (Event ''{"choices":[{"delta":{"content":" there"}}]}'') = Inr ?c2\<close>
    by (simp add: streamParser_def parse_and_enqueue_def p2 delta_content_def member_def
        opt_member_def encode_def enqueue_def)
  have sentinel: "streamParser h c (Event ''[DONE]'') = Inr (c\<lparr>state := Closed\<rparr>)"
    if "state c = Readable" for c
    using that by (simp add: streamParser_def close_def)
  have s3: "streamParser h ?c2 (Event ''[DONE]'') = Inr \<lparr>chunks = [''Hi'', '' there''], state = Closed\<rparr>"
    by (simp add: sentinel)
  have run: \<open>start h [Event ''{"choices":[{"delta":{"content":"Hi"}}]}'',
            Event ''{"choices":[{"delta":{"content":" there"}}]}'',
            Event ''[DONE]''] = \<lparr>chunks = [''Hi'', '' there''], state = Closed\<rparr>\<close>
    by (simp add: start_def s1 s2 s3)
  show ?thesis
    unfolding run using sentinel by simp
qed

theorem transcoder_hi_there_witness:
  "state \<lparr>chunks = [''Hi''], state = Readable\<rparr> = Readable
   \<and> streamParser sample_host \<lparr>chunks = [''Hi''], state = Readable\<rparr> (Event ''[DONE]'')
       = Inr \<lparr>chunks = [''Hi''], state = Closed\<rparr>"
  using transcoder_hi_there [of sample_host] by simp

text \<open>
  C9. An event whose data is not valid JSON (and is not the sentinel, which is tested
  before the data is parsed) puts a readable stream into the errored state; the chunks
  enqueued so far stay as they are, and no later event adds a chunk or closes the stream.
\<close>

theorem malformed_event_aborts:
  assumes "JSON_parse d = None" and "d \<noteq> ''[DONE]''" and "state c = Readable"
  shows "feed h c (Event d # rest) = c\<lparr>state := Errored\<rparr>"
proof -
  have "streamParser h c (Event d) = Inr (c\<lparr>state := Errored\<rparr>)"
    using assms by (simp add: streamParser_def parse_and_enqueue_def error_def)
  moreover have "feed h (c\<lparr>state := Errored\<rparr>) rest = c\<lparr>state := Errored\<rparr>"
    by (rule feed_terminal) simp
  ultimately show ?thesis by simp
qed

theorem malformed_event_aborts_witness:
  \<open>JSON_parse ''{"choices":'' = None \<and> ''{"choices":'' \<noteq> ''[DONE]''
   \<and> state \<lparr>chunks = [''Hi''], state = Readable\<rparr> = Readable
   \<and> feed sample_host \<lparr>chunks = [''Hi''], state = Readable\<rparr>
        [Event ''{"choices":'', Event ''{"choices":[{"delta":{"content":"x"}}]}'', Event ''[DONE]'']
       = \<lparr>chunks = [''Hi''], state = Errored\<rparr>\<close>
proof -
  have p: \<open>JSON_parse ''{"choices":'' = None\<close>
    by (simp add: JSON_parse_def lex_token_def lex_punct_def is_ws_def)
  have n: \<open>''{"choices":'' \<noteq> ''[DONE]''\<close> by simp
  have r: "state \<lparr>chunks = [''Hi''], state = Readable\<rparr> = Readable" by simp
  from malformed_event_aborts [OF p n r, of sample_host] p show ?thesis by simp
qed

text \<open>
  C10. An event whose data is valid JSON with no first element in its \<open>choices\<close> field (or
  with \<open>null\<close> there) aborts a readable stream exactly as malformed JSON does: the
  stream is errored and no later event adds a chunk. Where the first choice exists and
  only its \<open>delta\<close> or the \<open>content\<close> of its delta is missing, the stream stays readable and
  an empty chunk is enqueued. The extraction fails in no other case.
\<close>

theorem missing_first_choice_aborts:
  "(JSON_parse d = Some j \<and> state c = Readable
      \<and> (first_choice j = None \<or> first_choice j = Some JNull)
     \<longrightarrow> feed h c (Event d # rest) = c\<lparr>state := Errored\<rparr>)
   \<and> (JSON_parse d = Some j \<and> state c = Readable
      \<and> first_choice j = Some choice \<and> choice \<noteq> JNull
      \<and> opt_member (Get choice ''delta'') (\<lambda>v. Get v ''content'') = None
     \<longrightarrow> streamParser h c (Event d) = Inr (c\<lparr>chunks := chunks c @ [[]]\<rparr>))
   \<and> ((\<exists>e. delta_content j = Inl e) \<longleftrightarrow> first_choice j = None \<or> first_choice j = Some JNull)"
proof (intro conjI impI)
  assume a: "JSON_parse d = Some j \<and> state c = Readable
      \<and> (first_choice j = None \<or> first_choice j = Some JNull)"
  then have nd: "d \<noteq> ''[DONE]''" using JSON_parse_DONE by auto
  from a delta_content_throws [of j] obtain e where "delta_content j = Inl e" by blast
  with a nd have "streamParser h c (Event d) = Inr (c\<lparr>state := Errored\<rparr>)"
    by (simp add: streamParser_def parse_and_enqueue_def error_def)
  moreover have "feed h (c\<lparr>state := Errored\<rparr>) rest = c\<lparr>state := Errored\<rparr>"
    by (rule feed_terminal) simp
  ultimately show "feed h c (Event d # rest) = c\<lparr>state := Errored\<rparr>" by simp
next
  assume a: "JSON_parse d = Some j \<and> state c = Readable
      \<and> first_choice j = Some choice \<and> choice \<noteq> JNull
      \<and> opt_member (Get choice ''delta'') (\<lambda>v. Get v ''content'') = None"
  then have nd: "d \<noteq> ''[DONE]''" using JSON_parse_DONE by auto
  from a obtain ch where ch: "Get j ''choices'' = Some ch" and g0: "Get0 ch = Some choice"
    by (auto simp: first_choice_def split: option.splits)
  from ch have jn: "j \<noteq> JNull" by auto
  from g0 have cn: "ch \<noteq> JNull" by auto
  have m1: "member (Some j) (\<lambda>v. Get v ''choices'') = Inr (Some ch)"
    using jn ch by (cases j) (simp_all add: member_def)
  have m2: "member (Some ch) Get0 = Inr (Some choice)"
    using cn g0 by (cases ch) (simp_all add: member_def)
  have m3: "member (Some choice) (\<lambda>v. Get v ''delta'') = Inr (Get choice ''delta'')"
    using a by (cases choice) (simp_all add: member_def)
  from a have "delta_content j = Inr None"
    by (simp add: delta_content_def m1 m2 m3)
  with a nd show "streamParser h c (Event d) = Inr (c\<lparr>chunks := chunks c @ [[]]\<rparr>)"
    by (simp add: streamParser_def parse_and_enqueue_def encode_def enqueue_def)
next
  show "(\<exists>e. delta_content j = Inl e) \<longleftrightarrow> first_choice j = None \<or> first_choice j = Some JNull"
    by (rule delta_content_throws)
qed

theorem missing_first_choice_aborts_witness:
  \<open>JSON_parse ''{}'' = Some (JObj []) \<and> first_choice (JObj []) = None
   \<and> feed sample_host \<lparr>chunks = [''Hi''], state = Readable\<rparr>
        [Event ''{}'', Event ''[DONE]''] = \<lparr>chunks = [''Hi''], state = Errored\<rparr>
   \<and> JSON_parse ''{"choices":[]}'' = Some (JObj [(''choices'', JArr [])])
   \<and> first_choice (JObj [(''choices'', JArr [])]) = None
   \<and> feed sample_host \<lparr>chunks = [''Hi''], state = Readable\<rparr>
        [Event ''{"choices":[]}'', Event ''[DONE]''] = \<lparr>chunks = [''Hi''], state = Errored\<rparr>
   \<and> JSON_parse ''{"choices":[{}]}'' = Some (JObj [(''choices'', JArr [JObj []])])
   \<and> first_choice (JObj [(''choices'', JArr [JObj []])]) = Some (JObj [])
   \<and> streamParser sample_host \<lparr>chunks = [''Hi''], state = Readable\<rparr>
        (Event ''{"choices":[{}]}'') = Inr \<lparr>chunks = [''Hi'', []], state = Readable\<rparr>\<close>
proof -
  let ?c = "\<lparr>chunks = [''Hi''], state = Readable\<rparr>"
  have p1: \<open>JSON_parse ''{}'' = Some (JObj [])\<close>
    by (simp add: JSON_parse_def lex_token_def lex_punct_def is_ws_def)
  have p2: \<open>JSON_parse ''{"choices":[]}'' = Some (JObj [(''choices'', JArr [])])\<close>
    by (simp add: JSON_parse_def lex_token_def lex_punct_def is_ws_def)
  have p3: \<open>JSON_parse ''{"choices":[{}]}'' = Some (JObj [(''choices'', JArr [JObj []])])\<close>
    by (simp add: JSON_parse_def lex_token_def lex_punct_def is_ws_def)
  have f1: "first_choice (JObj []) = None"
    by (simp add: first_choice_def)
  have f2: "first_choice (JObj [(''choices'', JArr [])]) = None"
    by (simp add: first_choice_def)
  have f3: "first_choice (JObj [(''choices'', JArr [JObj []])]) = Some (JObj [])"
    by (simp add: first_choice_def)
  have r: "state ?c = Readable" by simp
  have m: "opt_member (Get (JObj []) ''delta'') (\<lambda>v. Get v ''content'') = None"
    by (simp add: opt_member_def)
  from missing_first_choice_aborts [of "''{}''" "JObj []" ?c sample_host "[Event ''[DONE]'']"]
  have w1: "feed sample_host ?c [Event ''{}'', Event ''[DONE]''] = \<lparr>chunks = [''Hi''], state = Errored\<rparr>"
    using p1 f1 r by simp
  from missing_first_choice_aborts [of \<open>''{"choices":[]}''\<close> "JObj [(''choices'', JArr [])]" ?c
      sample_host "[Event ''[DONE]'']"]
  have w2: \<open>feed sample_host ?c [Event ''{"choices":[]}'', Event ''[DONE]'']
      = \<lparr>chunks = [''Hi''], state = Errored\<rparr>\<close>
    using p2 f2 r by simp
  from missing_first_choice_aborts [of \<open>''{"choices":[{}]}''\<close> "JObj [(''choices'', JArr [JObj []])]" ?c
      sample_host _ "JObj []"]
  have w3: \<open>streamParser sample_host ?c (Event ''{"choices":[{}]}'')
      = Inr \<lparr>chunks = [''Hi'', []], state = Readable\<rparr>\<close>
    using p3 f3 r m by simp
  from p1 p2 p3 f1 f2 f3 w1 w2 w3 show ?thesis by simp
qed

section \<open>Properties of the billing lookup\<close>

lemma and_then_Inl [simp]: "and_then (Inl e) f = Inl e"
  by (simp add: and_then_def)

lemma and_then_Inr [simp]: "and_then (Inr v) f = f v"
  by (simp add: and_then_def)

lemma fetchBilling_key: "key (fetchBilling h k s u) = k"
proof -
  have "fetchBilling_try h k s u = Inr b \<Longrightarrow> key b = k" for b
    by (auto simp: fetchBilling_try_def and_then_def Let_def split: sum.splits if_splits)
  then show ?thesis
    by (simp add: fetchBilling_def unusable_def split: sum.splits)
qed

lemma fetchBilling_subscription_fails:
  "fetchBilling h k NetworkError u = unusable k"
  "fetchBilling h k NotJson u = unusable k"
  by (simp_all add: fetchBilling_def fetchBilling_try_def await_json_def)

lemma fetchBilling_usage_fails:
  assumes "u = NetworkError \<or> u = NotJson"
  shows "fetchBilling h k s u = unusable k"
proof -
  have "\<exists>x. fetchBilling_try h k s u = Inl x"
    using assms
    by (auto simp: fetchBilling_try_def and_then_def await_json_def split: sum.splits)
  then show ?thesis by (auto simp: fetchBilling_def)
qed

lemma fetchBilling_subscription_error:
  assumes "truthy (opt_member (Get sub ''error'') (\<lambda>v. Get v ''message''))"
  shows "fetchBilling h k (Parsed sub) u = unusable k"
proof -
  have "\<exists>x. fetchBilling_try h k (Parsed sub) u = Inl x"
    using assms
    by (cases sub) (simp_all add: fetchBilling_try_def await_json_def member_def)
  then show ?thesis by (auto simp: fetchBilling_def)
qed

lemma billings_of_length: "length (billings_of h n keys) = length keys"
  by (simp add: billings_of_def)

text \<open>
  C2. \<^verbatim>\<open>fetchBilling\<close> returns a record for every key and every outcome of its two requests,
  with the key it was given, and a failed request, a body that is not JSON and an error
  payload of the subscription endpoint give the unusable record (the lemmas above).
  An error payload of the usage endpoint does not: only \<^verbatim>\<open>subscriptionData.error\<close> is
  tested. With a limit of 120 from the subscription endpoint and an error payload from
  the usage endpoint, \<^verbatim>\<open>total_usage\<close> is \<^verbatim>\<open>undefined\<close>, and the record has the limit and NaN
  for the usage, the balance and the rate, instead of the all-zero form.
\<close>

theorem usage_error_payload_not_downgraded:
  "fetchBilling h ''sk-live'' (Parsed (JObj [(''hard_limit_usd'', JNum 120)]))
       (Parsed (JObj [(''error'', JObj [(''message'', JStr ''Rate limit reached'')])]))
     = \<lparr>key = ''sk-live'', rate = NaN, totalGranted = Some (JNum 120), totalUsed = NaN,
        totalAvailable = NaN\<rparr>
   \<and> fetchBilling h ''sk-live'' (Parsed (JObj [(''hard_limit_usd'', JNum 120)]))
       (Parsed (JObj [(''error'', JObj [(''message'', JStr ''Rate limit reached'')])]))
     \<noteq> unusable ''sk-live''"
  by (simp add: fetchBilling_def fetchBilling_try_def await_json_def member_def opt_member_def
      js_sub_def unusable_def)






section \<open>Properties of the billing table\<close>

text \<open>
  C1. The comparator answers \<open>-1\<close> when its first argument is unusable, and does not look
  at \<open>totalGranted\<close> of its second argument: for an unusable key and a key with a rate of
  one half it is negative in both orders. For the keys \<open>sk-dead\<close> (both requests fail)
  and \<open>sk-live\<close> (limit 10, usage 5), in this order, the sort calls the comparator with
  the usable record first, gets \<open>0 - 1/2\<close>, and puts the usable record before the unusable
  one.
\<close>

theorem unusable_key_sorted_after_usable:
  "billings_of sample_host sample_net [''sk-dead'', ''sk-live'']
     = [unusable ''sk-dead'',
        \<lparr>key = ''sk-live'', rate = Fin (1 / 2), totalGranted = Some (JNum 10),
         totalUsed = Fin 5, totalAvailable = Fin 5\<rparr>]
   \<and> sorted_billings (billings_of sample_host sample_net [''sk-dead'', ''sk-live''])
     = [\<lparr>key = ''sk-live'', rate = Fin (1 / 2), totalGranted = Some (JNum 10),
         totalUsed = Fin 5, totalAvailable = Fin 5\<rparr>,
        unusable ''sk-dead'']
   \<and> negative (billing_cmp (unusable ''sk-dead'')
         \<lparr>key = ''sk-live'', rate = Fin (1 / 2), totalGranted = Some (JNum 10),
          totalUsed = Fin 5, totalAvailable = Fin 5\<rparr>)
   \<and> negative (billing_cmp
         \<lparr>key = ''sk-live'', rate = Fin (1 / 2), totalGranted = Some (JNum 10),
          totalUsed = Fin 5, totalAvailable = Fin 5\<rparr> (unusable ''sk-dead''))"
proof -
  let ?live = "\<lparr>key = ''sk-live'', rate = Fin (1 / 2), totalGranted = Some (JNum 10),
         totalUsed = Fin 5, totalAvailable = Fin 5\<rparr>"
  have b: "billings_of sample_host sample_net [''sk-dead'', ''sk-live''] = [unusable ''sk-dead'', ?live]"
    by (simp add: billings_of_def sample_net_def fetchBilling_def fetchBilling_try_def
        await_json_def member_def opt_member_def js_sub_def Let_def)
  have c1: "billing_cmp (unusable ''sk-dead'') ?live = Fin (- 1)"
    by (simp add: billing_cmp_def unusable_def is_zero_def)
  have c2: "billing_cmp ?live (unusable ''sk-dead'') = Fin (- (1 / 2))"
    by (simp add: billing_cmp_def unusable_def is_zero_def js_sub_def)
  have s: "sorted_billings [unusable ''sk-dead'', ?live] = [?live, unusable ''sk-dead'']"
    by (simp add: sorted_billings_def Array_sort_def CountAndMakeRun_def SortCompare_def c2
        negative_def)
  from b c1 c2 s show ?thesis by (simp add: negative_def)
qed

section \<open>Properties of the request handler\<close>

lemma billing_response_actions:
  "CheckBudget \<notin> set (snd (billing_response h n keys))"
  "PostCompletion k \<notin> set (snd (billing_response h n keys))"
  "SelectKey \<notin> set (snd (billing_response h n keys))"
  by (auto simp: billing_response_def)

lemma post_try_cases:
  "(\<exists>x. post_try h e n b = (Inl x, []))
   \<or> post_try h e n b \<in> range (billing_response h n)
   \<or> (\<exists>msgs. messages b = Some msgs \<and> msgs \<noteq> []
         \<and> post_try h e n b = complete_chat h e n b (key_of e b) (model_of e b) msgs)"
  by (auto simp: post_try_def Let_def split: option.splits)

lemma complete_chat_actions:
  "snd (complete_chat h e n b k m msgs) = [SelectKey]
   \<or> snd (complete_chat h e n b k m msgs) = [SelectKey, CheckBudget]
   \<or> (\<exists>a. snd (complete_chat h e n b k m msgs) = [SelectKey, CheckBudget, PostCompletion a])"
  by (auto simp: complete_chat_def Let_def split: sum.splits bool.splits)

lemma complete_chat_budget:
  assumes "CheckBudget \<in> set (snd (complete_chat h e n b k m msgs))"
  shows "\<exists>apiKey. randomKey e (splitKeys e k) = Some apiKey \<and> apiKey \<noteq> []
           \<and> complete_chat h e n b k m msgs =
               (case exceeds h (estimate e msgs) (limit_for h e (body_key b) m) of
                  Inl ex \<Rightarrow> (Inl ex, [SelectKey, CheckBudget])
                | Inr True \<Rightarrow>
                    (Inl (Error (if length msgs > 1 then conversation_too_long else too_long)),
                     [SelectKey, CheckBudget])
                | Inr False \<Rightarrow>
                    (Inr (relay_or_stream h (fetch_completion n apiKey)),
                     [SelectKey, CheckBudget, PostCompletion apiKey]))"
proof -
  have t: "truthy_string (randomKey e (splitKeys e k))"
    using assms by (auto simp: complete_chat_def Let_def split: if_splits)
  then obtain apiKey where a: "randomKey e (splitKeys e k) = Some apiKey" "apiKey \<noteq> []"
    by (auto simp: truthy_string_def split: option.splits)
  with t show ?thesis
    by (simp add: complete_chat_def Let_def split: sum.splits bool.splits)
qed

lemma post_try_chat:
  assumes "a \<in> set (snd (post_try h e n b))" and "a = SelectKey \<or> a = CheckBudget \<or> a = PostCompletion k"
  shows "\<exists>msgs. messages b = Some msgs \<and> msgs \<noteq> []
           \<and> post_try h e n b = complete_chat h e n b (key_of e b) (model_of e b) msgs"
  using post_try_cases [of h e n b] assms billing_response_actions
  by auto

lemma post_try_budget:
  assumes "CheckBudget \<in> set (snd (post_try h e n b))"
  shows "\<exists>msgs apiKey. messages b = Some msgs \<and> msgs \<noteq> []
           \<and> randomKey e (splitKeys e (key_of e b)) = Some apiKey \<and> apiKey \<noteq> []
           \<and> post_try h e n b =
               (case exceeds h (estimate e msgs) (limit_for h e (body_key b) (model_of e b)) of
                  Inl ex \<Rightarrow> (Inl ex, [SelectKey, CheckBudget])
                | Inr True \<Rightarrow>
                    (Inl (Error (if length msgs > 1 then conversation_too_long else too_long)),
                     [SelectKey, CheckBudget])
                | Inr False \<Rightarrow>
                    (Inr (relay_or_stream h (fetch_completion n apiKey)),
                     [SelectKey, CheckBudget, PostCompletion apiKey]))"
proof -
  from post_try_chat [OF assms] obtain msgs where
    m: "messages b = Some msgs" "msgs \<noteq> []"
    and p: "post_try h e n b = complete_chat h e n b (key_of e b) (model_of e b) msgs" by blast
  from assms p have "CheckBudget \<in> set (snd (complete_chat h e n b (key_of e b) (model_of e b) msgs))"
    by simp
  from complete_chat_budget [OF this] m p show ?thesis by auto
qed

lemma post_try_actions:
  assumes "a \<in> set (snd (post_try h e n b))"
    and "a = SelectKey \<or> a = CheckBudget \<or> a = PostCompletion k"
  shows "snd (post_try h e n b) = [SelectKey]
         \<or> snd (post_try h e n b) = [SelectKey, CheckBudget]
         \<or> (\<exists>x. snd (post_try h e n b) = [SelectKey, CheckBudget, PostCompletion x])"
proof -
  from post_try_chat [OF assms] obtain msgs where
    "post_try h e n b = complete_chat h e n b (key_of e b) (model_of e b) msgs" by blast
  with complete_chat_actions [of h e n b "key_of e b" "model_of e b" msgs] show ?thesis by simp
qed

lemma snd_post: "snd (post h e n (Some b)) = snd (post_try h e n b)"
  by (simp add: post_def split: prod.splits sum.splits)

lemma fst_post:
  "fst (post h e n (Some b)) =
     (case fst (post_try h e n b) of Inl ex \<Rightarrow> error_response (message_of h ex) 400 | Inr r \<Rightarrow> r)"
  by (simp add: post_def split: prod.splits sum.splits)

lemmas handler_defs =
  post_def post_try_def complete_chat_def key_of_def model_of_def localKey_def
  truthy_string_def trim_def is_space_def starts_with_def Let_def split_on_def
  estimate_def exceeds_def limit_for_def lookup_def maxInputTokens_def js_gt_def
  relay_or_stream_def fetch_completion_def ok_def error_response_def
  sample_request_def sample_env_def sample_net_def sample_host_def
  is_digit_def digits_val_def digit_val_def isInteger_def

lemma lookup_map_const:
  "lookup (map (\<lambda>(k, old). (k, v)) table) m = (if lookup table m = None then None else Some v)"
proof -
  have "map_of (map (\<lambda>(k, old). (k, v)) xs) m = (if map_of xs m = None then None else Some v)" for xs
    by (induction xs) auto
  from this [of "rev table"] show ?thesis
    by (simp add: lookup_def rev_map)
qed





text \<open>
  C5, as stated, fails: with no override the ceiling for a supplied key equals the one
  for the built-in key (6144 for \<open>gpt-4\<close>), and with the override \<open>100000\<close> the ceiling for
  the built-in key is the larger one.
\<close>

theorem supplied_key_ceiling_counterexample:
  "limit_for sample_host sample_env (Some ''sk-own'') ''gpt-4'' = Some (JNum 6144)
   \<and> limit_for sample_host sample_env None ''gpt-4'' = Some (JNum 6144)
   \<and> \<not> (6144 :: rat) > 6144
   \<and> limit_for sample_host (sample_env\<lparr>MAX_INPUT_TOKENS := Some ''100000''\<rparr>) (Some ''sk-own'') ''gpt-4''
       = Some (JNum 6144)
   \<and> limit_for sample_host (sample_env\<lparr>MAX_INPUT_TOKENS := Some ''100000''\<rparr>) None ''gpt-4''
       = Some (JNum 100000)
   \<and> \<not> (6144 :: rat) > 100000"
  by (simp add: handler_defs)

text \<open>
  C5, amended. When the caller supplied a key, the ceiling is the entry of the model in
  the default table, which no override changes; when the built-in key is used, the
  ceiling is the entry of the model in the overridden table. The two are equal when no
  override is set; with an integer override \<open>i\<close> the built-in ceiling of a model of the
  default table is \<open>i\<close>, so the supplied-key ceiling is the larger one only when \<open>i\<close> is below
  the default.
\<close>

theorem supplied_key_ceiling:
  "(truthy_string k \<longrightarrow> limit_for h e k m = lookup (defaultMaxInputTokens e) m)
   \<and> (\<not> truthy_string k \<longrightarrow> limit_for h e k m = lookup (maxInputTokens h e) m)
   \<and> (MAX_INPUT_TOKENS e = None \<or> MAX_INPUT_TOKENS e = Some []
        \<longrightarrow> limit_for h e k m = lookup (defaultMaxInputTokens e) m)
   \<and> (\<not> truthy_string k \<and> MAX_INPUT_TOKENS e = Some v \<and> v \<noteq> []
        \<and> ToNumber h (Some (JStr v)) = Inr (Fin (of_int i))
        \<and> lookup (defaultMaxInputTokens e) m \<noteq> None
        \<longrightarrow> limit_for h e k m = Some (JNum (of_int i)))"
proof (intro conjI impI)
  show "limit_for h e k m = lookup (defaultMaxInputTokens e) m" if "truthy_string k"
    using that by (simp add: limit_for_def)
  show "limit_for h e k m = lookup (maxInputTokens h e) m" if "\<not> truthy_string k"
    using that by (simp add: limit_for_def)
  show "limit_for h e k m = lookup (defaultMaxInputTokens e) m"
    if "MAX_INPUT_TOKENS e = None \<or> MAX_INPUT_TOKENS e = Some []"
    using that by (auto simp: limit_for_def maxInputTokens_def)
  show "limit_for h e k m = Some (JNum (of_int i))"
    if a: "\<not> truthy_string k \<and> MAX_INPUT_TOKENS e = Some v \<and> v \<noteq> []
        \<and> ToNumber h (Some (JStr v)) = Inr (Fin (of_int i))
        \<and> lookup (defaultMaxInputTokens e) m \<noteq> None"
  proof -
    from a have "maxInputTokens h e
        = map (\<lambda>(k, old). (k, JNum (of_int i))) (defaultMaxInputTokens e)"
      by (simp add: maxInputTokens_def isInteger_def)
    with a show ?thesis by (simp add: limit_for_def lookup_map_const)
  qed
qed

text \<open>The amended C5 with the override \<open>5\<close> and with no override.\<close>

theorem supplied_key_ceiling_witness:
  "truthy_string (Some ''sk-own'')
   \<and> limit_for sample_host (sample_env\<lparr>MAX_INPUT_TOKENS := Some ''5''\<rparr>) (Some ''sk-own'') ''gpt-4''
       = Some (JNum 6144)
   \<and> \<not> truthy_string None
   \<and> ToNumber sample_host (Some (JStr ''5'')) = Inr (Fin (of_int 5))
   \<and> limit_for sample_host (sample_env\<lparr>MAX_INPUT_TOKENS := Some ''5''\<rparr>) None ''gpt-4''
       = Some (JNum (of_int 5))
   \<and> limit_for sample_host sample_env None ''gpt-4'' = Some (JNum 6144)"
proof -
  let ?e = "sample_env\<lparr>MAX_INPUT_TOKENS := Some ''5''\<rparr>"
  have t: "truthy_string (Some ''sk-own'')" and f: "\<not> truthy_string None"
    by (simp_all add: truthy_string_def)
  have n: "ToNumber sample_host (Some (JStr ''5'')) = Inr (Fin (of_int 5))"
    by (simp add: sample_host_def is_digit_def digits_val_def digit_val_def)
  have v: "MAX_INPUT_TOKENS ?e = Some ''5''" "''5'' \<noteq> []"
    by simp_all
  have d: "lookup (defaultMaxInputTokens ?e) ''gpt-4'' = Some (JNum 6144)"
    "lookup (defaultMaxInputTokens sample_env) ''gpt-4'' = Some (JNum 6144)"
    by (simp_all add: sample_env_def lookup_def)
  have u: "MAX_INPUT_TOKENS sample_env = None"
    by (simp add: sample_env_def)
  from supplied_key_ceiling [of "Some ''sk-own''" sample_host ?e "''gpt-4''" "''5''" 5]
  have "truthy_string (Some ''sk-own'')
      \<longrightarrow> limit_for sample_host ?e (Some ''sk-own'') ''gpt-4''
          = lookup (defaultMaxInputTokens ?e) ''gpt-4''" by blast
  with t d have 1: "limit_for sample_host ?e (Some ''sk-own'') ''gpt-4'' = Some (JNum 6144)"
    by simp
  from supplied_key_ceiling [of None sample_host ?e "''gpt-4''" "''5''" 5]
  have "\<not> truthy_string None \<and> MAX_INPUT_TOKENS ?e = Some ''5'' \<and> ''5'' \<noteq> []
        \<and> ToNumber sample_host (Some (JStr ''5'')) = Inr (Fin (of_int 5))
        \<and> lookup (defaultMaxInputTokens ?e) ''gpt-4'' \<noteq> None
      \<longrightarrow> limit_for sample_host ?e None ''gpt-4'' = Some (JNum (of_int 5))" by blast
  with f n v d have 2: "limit_for sample_host ?e None ''gpt-4'' = Some (JNum (of_int 5))"
    by simp
  from supplied_key_ceiling [of None sample_host sample_env "''gpt-4''"]
  have "MAX_INPUT_TOKENS sample_env = None \<or> MAX_INPUT_TOKENS sample_env = Some []
      \<longrightarrow> limit_for sample_host sample_env None ''gpt-4''
          = lookup (defaultMaxInputTokens sample_env) ''gpt-4''" by blast
  with u d have 3: "limit_for sample_host sample_env None ''gpt-4'' = Some (JNum 6144)"
    by simp
  from t f n 1 2 3 show ?thesis by simp
qed

lemma messages_differ: "conversation_too_long \<noteq> too_long"
  by (simp add: conversation_too_long_def too_long_def)

text \<open>
  C6. When the handler reaches the budget check and the limit that applies is a number
  \<open>l\<close>, the request is rejected exactly when the estimate, the sum of the token counts
  of the messages, is greater than \<open>l\<close>: it then throws the error for an input that is too
  long, which becomes a response with status 400, and otherwise goes on to the
  completion. The message for a conversation of more than one message differs from
  the message for a single one.
\<close>

theorem token_budget_check:
  assumes "CheckBudget \<in> set (snd (post_try h e n b))"
    and "messages b = Some msgs"
    and "limit_for h e (body_key b) (model_of e b) = Some (JNum l)"
  shows "(l < of_int (estimate e msgs) \<longrightarrow>
            fst (post_try h e n b)
              = Inl (Error (if 1 < length msgs then conversation_too_long else too_long))
            \<and> fst (post h e n (Some b))
              = error_response (if 1 < length msgs then conversation_too_long else too_long) 400)
       \<and> (of_int (estimate e msgs) \<le> l \<longrightarrow> (\<exists>r. fst (post_try h e n b) = Inr r))
       \<and> conversation_too_long \<noteq> too_long"
proof -
  from post_try_budget [OF assms(1)] assms(2) obtain apiKey where
    p: "post_try h e n b =
          (case exceeds h (estimate e msgs) (limit_for h e (body_key b) (model_of e b)) of
             Inl ex \<Rightarrow> (Inl ex, [SelectKey, CheckBudget])
           | Inr True \<Rightarrow>
               (Inl (Error (if length msgs > 1 then conversation_too_long else too_long)),
                [SelectKey, CheckBudget])
           | Inr False \<Rightarrow>
               (Inr (relay_or_stream h (fetch_completion n apiKey)),
                [SelectKey, CheckBudget, PostCompletion apiKey]))"
    by auto
  have x: "exceeds h (estimate e msgs) (limit_for h e (body_key b) (model_of e b))
      = Inr (l < of_int (estimate e msgs))"
    by (simp add: exceeds_def assms(3) js_gt_def)
  have rej: "fst (post_try h e n b)
      = Inl (Error (if 1 < length msgs then conversation_too_long else too_long))"
    if "l < of_int (estimate e msgs)"
    using that by (simp add: p x)
  have acc: "\<exists>r. fst (post_try h e n b) = Inr r" if "of_int (estimate e msgs) \<le> l"
    using that by (simp add: p x)
  from rej acc messages_differ show ?thesis
    by (simp add: fst_post error_response_def)
qed

text \<open>C6 at the limit 5: estimates 6 and 4, the boundary 5, and a conversation of two messages.\<close>

theorem token_budget_check_witness:
  "fst (post_try sample_host (sample_env\<lparr>MAX_INPUT_TOKENS := Some ''5''\<rparr>) sample_net
          (sample_request [''hello!''] None)) = Inl (Error too_long)
   \<and> fst (post_try sample_host (sample_env\<lparr>MAX_INPUT_TOKENS := Some ''5''\<rparr>) sample_net
          (sample_request [''abc'', ''def''] None)) = Inl (Error conversation_too_long)
   \<and> (\<exists>r. fst (post_try sample_host (sample_env\<lparr>MAX_INPUT_TOKENS := Some ''5''\<rparr>) sample_net
          (sample_request [''hello''] None)) = Inr r)
   \<and> (\<exists>r. fst (post_try sample_host (sample_env\<lparr>MAX_INPUT_TOKENS := Some ''5''\<rparr>) sample_net
          (sample_request [''hell''] None)) = Inr r)"
proof -
  let ?e = "sample_env\<lparr>MAX_INPUT_TOKENS := Some ''5''\<rparr>"
  have reached: "CheckBudget \<in> set (snd (post_try sample_host ?e sample_net (sample_request ts None)))"
    if "ts \<in> {[''hello!''], [''abc'', ''def''], [''hello''], [''hell'']}" for ts
    using that by (auto simp: handler_defs)
  have msgs: "messages (sample_request ts None)
      = Some (map (\<lambda>t. \<lparr>role = ''user'', content = t\<rparr>) ts)" for ts
    by (simp add: sample_request_def)
  have limit: "limit_for sample_host ?e (body_key (sample_request ts None))
      (model_of ?e (sample_request ts None)) = Some (JNum 5)" for ts
    by (simp add: handler_defs)
  have est: "estimate ?e (map (\<lambda>t. \<lparr>role = ''user'', content = t\<rparr>) ts) = sum_list (map (\<lambda>t. int (length t)) ts)"
    if "length ts \<le> 2" for ts
  proof -
    from that consider "ts = []" | a where "ts = [a]" | a b where "ts = [a, b]"
      by (cases ts; cases "tl ts") auto
    then show ?thesis by cases (simp_all add: estimate_def sample_env_def)
  qed
  from token_budget_check [OF reached msgs limit, of "[''hello!'']"] est [of "[''hello!'']"]
  have 1: "fst (post_try sample_host ?e sample_net (sample_request [''hello!''] None))
      = Inl (Error too_long)" by simp
  from token_budget_check [OF reached msgs limit, of "[''abc'', ''def'']"] est [of "[''abc'', ''def'']"]
  have 2: "fst (post_try sample_host ?e sample_net (sample_request [''abc'', ''def''] None))
      = Inl (Error conversation_too_long)" by simp
  from token_budget_check [OF reached msgs limit, of "[''hello'']"] est [of "[''hello'']"]
  have 3: "\<exists>r. fst (post_try sample_host ?e sample_net (sample_request [''hello''] None)) = Inr r"
    by simp
  from token_budget_check [OF reached msgs limit, of "[''hell'']"] est [of "[''hell'']"]
  have 4: "\<exists>r. fst (post_try sample_host ?e sample_net (sample_request [''hell''] None)) = Inr r"
    by simp
  from 1 2 3 4 show ?thesis by blast
qed

text \<open>
  C7. When the upstream completion request is answered with a status outside 200 to 299,
  the response of the handler has that status, that status text and that body: it is
  not a stream made by \<^verbatim>\<open>streamParser\<close>.
\<close>

theorem upstream_error_relayed:
  assumes "PostCompletion k \<in> set (snd (post h e n (Some b)))"
    and "completion n k = Responded st txt raw"
    and "\<not> (200 \<le> st \<and> st \<le> 299)"
  shows "fst (post h e n (Some b)) = \<lparr>status = st, statusText = txt, body = Bytes raw\<rparr>"
proof -
  from assms(1) have a: "PostCompletion k \<in> set (snd (post_try h e n b))"
    by (simp add: snd_post)
  then have c: "CheckBudget \<in> set (snd (post_try h e n b))"
    using post_try_actions [OF a] by auto
  from post_try_budget [OF c] obtain msgs apiKey where
    p: "post_try h e n b =
          (case exceeds h (estimate e msgs) (limit_for h e (body_key b) (model_of e b)) of
             Inl ex \<Rightarrow> (Inl ex, [SelectKey, CheckBudget])
           | Inr True \<Rightarrow>
               (Inl (Error (if length msgs > 1 then conversation_too_long else too_long)),
                [SelectKey, CheckBudget])
           | Inr False \<Rightarrow>
               (Inr (relay_or_stream h (fetch_completion n apiKey)),
                [SelectKey, CheckBudget, PostCompletion apiKey]))"
    by blast
  from a p have q: "post_try h e n b
      = (Inr (relay_or_stream h (fetch_completion n k)), [SelectKey, CheckBudget, PostCompletion k])"
    by (auto split: sum.splits bool.splits)
  have "relay_or_stream h (fetch_completion n k) = \<lparr>status = st, statusText = txt, body = Bytes raw\<rparr>"
    using assms(2,3) by (simp add: fetch_completion_def relay_or_stream_def ok_def)
  with q show ?thesis by (simp add: fst_post)
qed

text \<open>C7 on an upstream answer with status 429.\<close>

theorem upstream_error_relayed_witness:
  \<open>PostCompletion ''sk-builtin''
     \<in> set (snd (post sample_host sample_env sample_net (Some (sample_request [''hello''] None))))
   \<and> completion sample_net ''sk-builtin''
       = Responded 429 ''Too Many Requests'' ''{"error":{"message":"Rate limit reached"}}''
   \<and> \<not> (200 \<le> (429 :: nat) \<and> (429 :: nat) \<le> 299)
   \<and> fst (post sample_host sample_env sample_net (Some (sample_request [''hello''] None)))
       = \<lparr>status = 429, statusText = ''Too Many Requests'',
          body = Bytes ''{"error":{"message":"Rate limit reached"}}''\<rparr>\<close>
proof -
  have p: "PostCompletion ''sk-builtin''
     \<in> set (snd (post sample_host sample_env sample_net (Some (sample_request [''hello''] None))))"
    by (simp add: handler_defs)
  have c: \<open>completion sample_net ''sk-builtin''
       = Responded 429 ''Too Many Requests'' ''{"error":{"message":"Rate limit reached"}}''\<close>
    by (simp add: sample_net_def)
  have s: "\<not> (200 \<le> (429 :: nat) \<and> (429 :: nat) \<le> 299)" by simp
  from upstream_error_relayed [OF p c s] p c s show ?thesis by simp
qed

end
